theory Spec2Isabelle
  imports Complex_Main "HOL-Library.List_Lexorder"
begin

section \<open>Python strings and the naming rule\<close>

text \<open>
  A Python \<^verbatim>\<open>str\<close> is a sequence of Unicode code points, so a name is a list of
  code points and not a list of bytes. ASCII literals are written through \<open>ascii\<close>.
\<close>

type_synonym codepoint = nat
type_synonym pystr = "codepoint list"

definition ascii :: "string \<Rightarrow> pystr" where
  "ascii s = map of_char s"

text \<open>
  \<^verbatim>\<open>str.isidentifier\<close> and \<^verbatim>\<open>str.isupper\<close> consult the Unicode character
  database of the interpreter, which is no part of the repository. Below 128 the
  classification is written out; from 128 on it is a parameter \<open>U\<close> of the model: the
  properties XID_Start and XID_Continue, and the case of a character (the derived
  properties Uppercase and Lowercase and the category Lt exclude one another in the
  database, hence one value for each code point).
\<close>

datatype casing = Upper | Lower | Title | Uncased

record ucd =
  xid_start :: "codepoint \<Rightarrow> bool"
  xid_continue :: "codepoint \<Rightarrow> bool"
  case_of :: "codepoint \<Rightarrow> casing"

definition ascii_upper :: "codepoint \<Rightarrow> bool" where
  "ascii_upper c \<longleftrightarrow> 65 \<le> c \<and> c \<le> 90"

definition ascii_lower :: "codepoint \<Rightarrow> bool" where
  "ascii_lower c \<longleftrightarrow> 97 \<le> c \<and> c \<le> 122"

definition ascii_digit :: "codepoint \<Rightarrow> bool" where
  "ascii_digit c \<longleftrightarrow> 48 \<le> c \<and> c \<le> 57"

definition is_xid_start :: "ucd \<Rightarrow> codepoint \<Rightarrow> bool" where
  "is_xid_start U c =
     (if c < 128 then ascii_upper c \<or> ascii_lower c else xid_start U c)"

definition is_xid_continue :: "ucd \<Rightarrow> codepoint \<Rightarrow> bool" where
  "is_xid_continue U c =
     (if c < 128 then ascii_upper c \<or> ascii_lower c \<or> ascii_digit c \<or> c = 95
      else xid_continue U c)"

definition char_case :: "ucd \<Rightarrow> codepoint \<Rightarrow> casing" where
  "char_case U c =
     (if c < 128
      then (if ascii_upper c then Upper else if ascii_lower c then Lower else Uncased)
      else case_of U c)"

text \<open>
  \<^verbatim>\<open>str.isidentifier()\<close>: the string is not empty, its first character is an
  underscore or has XID_Start, every later character has XID_Continue.
\<close>

definition isidentifier :: "ucd \<Rightarrow> pystr \<Rightarrow> bool" where
  "isidentifier U s =
     (case s of
        [] \<Rightarrow> False
      | c # cs \<Rightarrow> (is_xid_start U c \<or> c = 95) \<and> list_all (is_xid_continue U) cs)"

text \<open>
  \<^verbatim>\<open>str.isupper()\<close>: the interpreter walks over the string, answers False at the
  first lowercase or titlecase character, and remembers whether it has met an uppercase
  one; the answer at the end is that flag. A string without any cased character is
  therefore not upper.
\<close>

fun isupper_from :: "ucd \<Rightarrow> bool \<Rightarrow> pystr \<Rightarrow> bool" where
  "isupper_from U seen [] = seen"
| "isupper_from U seen (c # cs) =
     (case char_case U c of
        Lower \<Rightarrow> False
      | Title \<Rightarrow> False
      | Upper \<Rightarrow> isupper_from U True cs
      | Uncased \<Rightarrow> isupper_from U seen cs)"

definition isupper :: "ucd \<Rightarrow> pystr \<Rightarrow> bool" where
  "isupper U s = isupper_from U False s"

text \<open>\<^verbatim>\<open>str.startswith(prefix)\<close>.\<close>

definition startswith :: "pystr \<Rightarrow> pystr \<Rightarrow> bool" where
  "startswith s p \<longleftrightarrow> take (length p) s = p"

text \<open>
  \<^verbatim>\<open>is_const\<close> of \<^verbatim>\<open>utils.py\<close>; \<^verbatim>\<open>utility_funcs.py\<close> holds the same
  function word for word:
  \<^verbatim>\<open>return name.isidentifier() and name.isupper() and not name.startswith('_')\<close>
\<close>

definition is_const :: "ucd \<Rightarrow> pystr \<Rightarrow> bool" where
  "is_const U name \<longleftrightarrow>
     isidentifier U name \<and> isupper U name \<and> \<not> startswith name (ascii ''_'')"

text \<open>
  The rule as the specification words it: a valid identifier, every cased character of
  which is uppercase, and which does not start with an underscore.
\<close>

definition cased :: "ucd \<Rightarrow> codepoint \<Rightarrow> bool" where
  "cased U c \<longleftrightarrow> char_case U c \<noteq> Uncased"

definition spec_is_const :: "ucd \<Rightarrow> pystr \<Rightarrow> bool" where
  "spec_is_const U name \<longleftrightarrow>
     isidentifier U name \<and> list_all (\<lambda>c. cased U c \<longrightarrow> char_case U c = Upper) name
     \<and> \<not> startswith name (ascii ''_'')"

text \<open>
  The database restricted to the block of the CJK unified ideographs, U+4E00 to U+9FFF
  (19968 to 40959): letters of category Lo, which start and continue identifiers and
  have no case.
\<close>

definition cjk_ideographs :: ucd where
  "cjk_ideographs =
     \<lparr>xid_start = (\<lambda>c. 19968 \<le> c \<and> c \<le> 40959),
      xid_continue = (\<lambda>c. 19968 \<le> c \<and> c \<le> 40959),
      case_of = (\<lambda>c. Uncased)\<rparr>"

text \<open>A database without any character beyond ASCII, for the examples.\<close>

definition ascii_only :: ucd where
  "ascii_only =
     \<lparr>xid_start = (\<lambda>c. False), xid_continue = (\<lambda>c. False), case_of = (\<lambda>c. Uncased)\<rparr>"

section \<open>Classes and the constant cache\<close>

text \<open>
  Exceptions are values. \<open>AttributeError\<close> carries the name of the attribute that was
  not found, \<open>ValueError\<close> and \<open>RuntimeError\<close> their message, \<open>ImportError\<close> the name
  of the module.
\<close>

datatype error =
    ValueError pystr
  | AttributeError pystr
  | KeyError
  | RuntimeError pystr
  | ImportError pystr

type_synonym 'a result = "error + 'a"

type_synonym 'v dict = "pystr \<rightharpoonup> 'v"

text \<open>
  Classes are objects with an identity. The world holds, for every identity, the
  class object: its \<^verbatim>\<open>__name__\<close>, its own \<^verbatim>\<open>__dict__\<close>, and the rest of its
  \<^verbatim>\<open>__mro__\<close> (the linearisation of its ancestors that \<^verbatim>\<open>type.__new__\<close>
  computes, without the class itself). Attribute values are opaque (\<open>'v\<close>);
  descriptors, the special attributes that \<^verbatim>\<open>type\<close> itself handles (all of
  them named with a leading underscore) and the two properties of the metaclass
  (\<^verbatim>\<open>const_names\<close> and \<^verbatim>\<open>const_values\<close>, which cannot be assigned on a
  class) are outside the model; none of these names is a constant name.
  \<open>class_constant_cache\<close> is \<^verbatim>\<open>ConstClassMeta._class_constant_cache\<close>, a
  dictionary from class objects to sets of names.
\<close>

type_synonym cid = nat

record 'v pyclass =
  cls_name :: pystr
  cls_dict :: "'v dict"
  cls_ancestors :: "cid list"

record 'v world =
  classes :: "cid \<Rightarrow> 'v pyclass"
  class_constant_cache :: "cid \<rightharpoonup> pystr set"

definition empty_world :: "'v world" where
  "empty_world =
     \<lparr>classes = (\<lambda>c. \<lparr>cls_name = [], cls_dict = Map.empty, cls_ancestors = []\<rparr>),
      class_constant_cache = Map.empty\<rparr>"

definition mro :: "'v world \<Rightarrow> cid \<Rightarrow> cid list" where
  "mro w c = c # cls_ancestors (classes w c)"

text \<open>
  \<^verbatim>\<open>getattr(cls, name)\<close>: the first class of the method resolution order whose
  dictionary has the name; \<^verbatim>\<open>AttributeError\<close> when none has it. (The attributes
  of the metaclass, which the interpreter would try as well, are left out:
  \<^verbatim>\<open>ConstClassMeta\<close> and \<^verbatim>\<open>type\<close> have none with a constant name.)
\<close>

fun lookup_mro :: "'v world \<Rightarrow> cid list \<Rightarrow> pystr \<Rightarrow> 'v option" where
  "lookup_mro w [] name = None"
| "lookup_mro w (k # ks) name =
     (case cls_dict (classes w k) name of
        Some v \<Rightarrow> Some v
      | None \<Rightarrow> lookup_mro w ks name)"

definition getattr :: "'v world \<Rightarrow> cid \<Rightarrow> pystr \<Rightarrow> 'v result" where
  "getattr w c name =
     (case lookup_mro w (mro w c) name of
        None \<Rightarrow> Inl (AttributeError name)
      | Some v \<Rightarrow> Inr v)"

text \<open>
  \<^verbatim>\<open>dir(cls)\<close>: the names in the dictionary of the class and of every class it
  inherits from.
\<close>

definition dir :: "'v world \<Rightarrow> cid \<Rightarrow> pystr set" where
  "dir w c = (\<Union>k\<in>set (mro w c). dom (cls_dict (classes w k)))"

text \<open>
  \<^verbatim>\<open>type.__new__\<close> allocates the class object; \<open>c\<close> is the identity the
  allocator gives it. \<^verbatim>\<open>type.__setattr__\<close> stores into the dictionary of the
  class itself; \<^verbatim>\<open>type.__delattr__\<close> deletes from it and raises
  \<^verbatim>\<open>AttributeError\<close> when the name is not there, also when a base class has it.
\<close>

definition type_new :: "'v world \<Rightarrow> cid \<Rightarrow> pystr \<Rightarrow> cid list \<Rightarrow> 'v dict \<Rightarrow> 'v world" where
  "type_new w c name ancestors namespace =
     w\<lparr>classes := (classes w)
          (c := \<lparr>cls_name = name, cls_dict = namespace, cls_ancestors = ancestors\<rparr>)\<rparr>"

definition type_setattr :: "'v world \<Rightarrow> cid \<Rightarrow> pystr \<Rightarrow> 'v \<Rightarrow> 'v world" where
  "type_setattr w c name v =
     w\<lparr>classes := (classes w)
          (c := (classes w c)\<lparr>cls_dict := (cls_dict (classes w c))(name \<mapsto> v)\<rparr>)\<rparr>"

definition type_delattr :: "'v world \<Rightarrow> cid \<Rightarrow> pystr \<Rightarrow> 'v world result" where
  "type_delattr w c name =
     (case cls_dict (classes w c) name of
        None \<Rightarrow> Inl (AttributeError name)
      | Some v \<Rightarrow>
          Inr (w\<lparr>classes := (classes w)
                 (c := (classes w c)\<lparr>cls_dict := (cls_dict (classes w c))(name := None)\<rparr>)\<rparr>))"

text \<open>
  \<^verbatim>\<open>ConstClassMeta.__new__\<close>:
  \<^verbatim>\<open>
  const_class = super().__new__(cls, *args, **kwargs)
  constants = {name for name in dir(const_class) if is_const(name)}
  cls._class_constant_cache[const_class] = constants
  \<close>
\<close>

definition cls_new :: "ucd \<Rightarrow> 'v world \<Rightarrow> cid \<Rightarrow> pystr \<Rightarrow> cid list \<Rightarrow> 'v dict \<Rightarrow> 'v world" where
  "cls_new U w c name ancestors namespace =
     (let w1 = type_new w c name ancestors namespace;
          constants = {n \<in> dir w1 c. is_const U n}
      in w1\<lparr>class_constant_cache := (class_constant_cache w1)(c \<mapsto> constants)\<rparr>)"

text \<open>
  Iterating over a Python set visits its elements in an order that the language leaves
  open. The operations that iterate over the cached set take that order as the
  parameter \<open>it\<close>, from a set to the list of its elements; \<open>enumeration it\<close> says that
  \<open>it\<close> lists every finite set without repetition.
\<close>

type_synonym set_order = "pystr set \<Rightarrow> pystr list"

definition enumeration :: "set_order \<Rightarrow> bool" where
  "enumeration it \<longleftrightarrow> (\<forall>S. finite S \<longrightarrow> set (it S) = S \<and> distinct (it S))"

text \<open>\<^verbatim>\<open>sep.join(names)\<close>.\<close>

fun join :: "pystr \<Rightarrow> pystr list \<Rightarrow> pystr" where
  "join sep [] = []"
| "join sep [x] = x"
| "join sep (x # y # ys) = x @ sep @ join sep (y # ys)"

text \<open>
  \<^verbatim>\<open>ConstClassMeta.__getitem__\<close>:
  \<^verbatim>\<open>
  class_constants = ConstClassMeta._class_constant_cache[cls]
  if item in class_constants:
      return getattr(cls, item)
  else:
      available = ', '.join(class_constants)
      raise ValueError(f'Class {cls.__name__} does not '
                       f'contain a constant named {item}. '
                       f'Existing constants are {available}')
  \<close>
\<close>

definition no_constant_message :: "pystr \<Rightarrow> pystr \<Rightarrow> pystr \<Rightarrow> pystr" where
  "no_constant_message cname item available =
     ascii ''Class '' @ cname @ ascii '' does not contain a constant named '' @ item
     @ ascii ''. Existing constants are '' @ available"

definition cls_getitem :: "set_order \<Rightarrow> 'v world \<Rightarrow> cid \<Rightarrow> pystr \<Rightarrow> 'v result" where
  "cls_getitem it w c item =
     (case class_constant_cache w c of
        None \<Rightarrow> Inl KeyError
      | Some class_constants \<Rightarrow>
          if item \<in> class_constants then getattr w c item
          else Inl (ValueError (no_constant_message (cls_name (classes w c)) item
                                  (join (ascii '', '') (it class_constants)))))"

text \<open>
  \<^verbatim>\<open>ConstClassMeta.__setattr__\<close>: the assignment comes first, then the cache.
  \<^verbatim>\<open>
  super().__setattr__(name, value)
  class_constants = ConstClassMeta._class_constant_cache[cls]
  if is_const(name) and name not in class_constants:
      class_constants.add(name)
  \<close>
  A stateful operation returns its outcome and the world it leaves behind, which after
  an exception is the world at the moment of the raise.
\<close>

definition cls_setattr :: "ucd \<Rightarrow> 'v world \<Rightarrow> cid \<Rightarrow> pystr \<Rightarrow> 'v \<Rightarrow> unit result \<times> 'v world" where
  "cls_setattr U w c name v =
     (let w1 = type_setattr w c name v in
      case class_constant_cache w1 c of
        None \<Rightarrow> (Inl KeyError, w1)
      | Some class_constants \<Rightarrow>
          if is_const U name \<and> name \<notin> class_constants
          then (Inr (), w1\<lparr>class_constant_cache :=
                            (class_constant_cache w1)(c \<mapsto> insert name class_constants)\<rparr>)
          else (Inr (), w1))"

text \<open>
  \<^verbatim>\<open>ConstClassMeta.__delattr__\<close>:
  \<^verbatim>\<open>
  super().__delattr__(name)
  class_constants = ConstClassMeta._class_constant_cache[cls]
  if name in class_constants:
      class_constants.remove(name)
  \<close>
\<close>

definition cls_delattr :: "'v world \<Rightarrow> cid \<Rightarrow> pystr \<Rightarrow> unit result \<times> 'v world" where
  "cls_delattr w c name =
     (case type_delattr w c name of
        Inl e \<Rightarrow> (Inl e, w)
      | Inr w1 \<Rightarrow>
          (case class_constant_cache w1 c of
             None \<Rightarrow> (Inl KeyError, w1)
           | Some class_constants \<Rightarrow>
               if name \<in> class_constants
               then (Inr (), w1\<lparr>class_constant_cache :=
                                 (class_constant_cache w1)(c \<mapsto> class_constants - {name})\<rparr>)
               else (Inr (), w1)))"

text \<open>
  \<^verbatim>\<open>ConstClassMeta.as_dict\<close>:
  \<^verbatim>\<open>
  class_constants = ConstClassMeta._class_constant_cache[cls]
  return {const_name: getattr(cls, const_name) for const_name in class_constants}
  \<close>
  The dictionary that is returned keeps the order of insertion, so it is a list of
  items; the comprehension stops at the first \<^verbatim>\<open>getattr\<close> that raises.
\<close>

fun comprehension :: "'v world \<Rightarrow> cid \<Rightarrow> pystr list \<Rightarrow> (pystr \<times> 'v) list result" where
  "comprehension w c [] = Inr []"
| "comprehension w c (const_name # rest) =
     (case getattr w c const_name of
        Inl e \<Rightarrow> Inl e
      | Inr v \<Rightarrow>
          (case comprehension w c rest of
             Inl e \<Rightarrow> Inl e
           | Inr items \<Rightarrow> Inr ((const_name, v) # items)))"

definition as_dict :: "set_order \<Rightarrow> 'v world \<Rightarrow> cid \<Rightarrow> (pystr \<times> 'v) list result" where
  "as_dict it w c =
     (case class_constant_cache w c of
        None \<Rightarrow> Inl KeyError
      | Some class_constants \<Rightarrow> comprehension w c (it class_constants))"

text \<open>
  The properties \<^verbatim>\<open>const_names\<close> (\<^verbatim>\<open>list(cls.as_dict())\<close>) and
  \<^verbatim>\<open>const_values\<close> (\<^verbatim>\<open>list(cls.as_dict().values())\<close>).
\<close>

definition const_names :: "set_order \<Rightarrow> 'v world \<Rightarrow> cid \<Rightarrow> pystr list result" where
  "const_names it w c =
     (case as_dict it w c of Inl e \<Rightarrow> Inl e | Inr items \<Rightarrow> Inr (map fst items))"

definition const_values :: "set_order \<Rightarrow> 'v world \<Rightarrow> cid \<Rightarrow> 'v list result" where
  "const_values it w c =
     (case as_dict it w c of Inl e \<Rightarrow> Inl e | Inr items \<Rightarrow> Inr (map snd items))"

section \<open>Applying the constants to a namespace\<close>

text \<open>
  The target of \<^verbatim>\<open>__apply\<close> is a module object (from \<^verbatim>\<open>apply_to_module\<close>) or a
  dictionary object (\<^verbatim>\<open>f_locals\<close> or \<^verbatim>\<open>f_globals\<close> of a frame, from
  \<^verbatim>\<open>apply\<close>). \<^verbatim>\<open>hasattr\<close> asks for an attribute of the object: for a module
  these are its variables; for a dictionary they are the methods of the type
  \<^verbatim>\<open>dict\<close>, never its keys. \<open>dict_attrs\<close> lists them, as CPython 3.12
  has them (older versions lack a few).
\<close>

datatype 'v namespace = Module "'v dict" | Dict "'v dict"

definition dict_attrs :: "pystr list" where
  "dict_attrs = map ascii
     [''__class__'', ''__class_getitem__'', ''__contains__'', ''__delattr__'',
      ''__delitem__'', ''__dir__'', ''__doc__'', ''__eq__'', ''__format__'', ''__ge__'',
      ''__getattribute__'', ''__getitem__'', ''__getstate__'', ''__gt__'', ''__hash__'',
      ''__init__'', ''__init_subclass__'', ''__ior__'', ''__iter__'', ''__le__'',
      ''__len__'', ''__lt__'', ''__ne__'', ''__new__'', ''__or__'', ''__reduce__'',
      ''__reduce_ex__'', ''__repr__'', ''__reversed__'', ''__ror__'', ''__setattr__'',
      ''__setitem__'', ''__sizeof__'', ''__str__'', ''__subclasshook__'', ''clear'',
      ''copy'', ''fromkeys'', ''get'', ''items'', ''keys'', ''pop'', ''popitem'',
      ''setdefault'', ''update'', ''values'']"

fun hasattr :: "'v namespace \<Rightarrow> pystr \<Rightarrow> bool" where
  "hasattr (Module m) name = (m name \<noteq> None)"
| "hasattr (Dict d) name = (name \<in> set dict_attrs)"

text \<open>
  \<open>f_assign\<close> is \<^verbatim>\<open>module.__setattr__\<close> for a module and
  \<^verbatim>\<open>namespace.__setitem__\<close> for a dictionary.
\<close>

fun f_assign :: "'v namespace \<Rightarrow> pystr \<Rightarrow> 'v \<Rightarrow> 'v namespace" where
  "f_assign (Module m) name v = Module (m(name \<mapsto> v))"
| "f_assign (Dict d) name v = Dict (d(name \<mapsto> v))"

fun contents :: "'v namespace \<Rightarrow> 'v dict" where
  "contents (Module m) = m"
| "contents (Dict d) = d"

text \<open>
  \<^verbatim>\<open>ConstClassMeta.__apply\<close>:
  \<^verbatim>\<open>
  for name in ConstClassMeta._class_constant_cache[cls]:
      value = getattr(cls, name)
      if not override and hasattr(namespace, name):
          continue
      f_assign(name, value)
  \<close>
  The namespace is changed in place, so an exception in the middle of the loop leaves
  the names written so far.
\<close>

fun apply_loop :: "'v world \<Rightarrow> cid \<Rightarrow> bool \<Rightarrow> 'v namespace \<Rightarrow> pystr list
    \<Rightarrow> unit result \<times> 'v namespace" where
  "apply_loop w c override namespace [] = (Inr (), namespace)"
| "apply_loop w c override namespace (name # rest) =
     (case getattr w c name of
        Inl e \<Rightarrow> (Inl e, namespace)
      | Inr v \<Rightarrow>
          if \<not> override \<and> hasattr namespace name
          then apply_loop w c override namespace rest
          else apply_loop w c override (f_assign namespace name v) rest)"

definition private_apply :: "set_order \<Rightarrow> 'v world \<Rightarrow> cid \<Rightarrow> 'v namespace \<Rightarrow> bool
    \<Rightarrow> unit result \<times> 'v namespace" where
  "private_apply it w c namespace override =
     (case class_constant_cache w c of
        None \<Rightarrow> (Inl KeyError, namespace)
      | Some class_constants \<Rightarrow> apply_loop w c override namespace (it class_constants))"

text \<open>
  \<^verbatim>\<open>ConstClassMeta.apply_to_module\<close>; \<open>modules\<close> are the modules that
  \<^verbatim>\<open>importlib.import_module\<close> can load, by name.
  \<^verbatim>\<open>
  module = importlib.import_module(module_name)
  cls.__apply(module, override, module.__setattr__)
  \<close>
\<close>

definition apply_to_module :: "set_order \<Rightarrow> 'v world \<Rightarrow> cid \<Rightarrow> (pystr \<rightharpoonup> 'v dict) \<Rightarrow> pystr
    \<Rightarrow> bool \<Rightarrow> unit result \<times> (pystr \<rightharpoonup> 'v dict)" where
  "apply_to_module it w c modules module_name override =
     (case modules module_name of
        None \<Rightarrow> (Inl (ImportError module_name), modules)
      | Some module_vars \<Rightarrow>
          (case private_apply it w c (Module module_vars) override of
             (r, namespace) \<Rightarrow> (r, modules(module_name \<mapsto> contents namespace))))"

text \<open>
  \<^verbatim>\<open>ConstClassMeta.apply\<close>. \<^verbatim>\<open>inspect.currentframe()\<close> gives the frame of
  \<^verbatim>\<open>apply\<close> itself, or None on an interpreter without frames; \<^verbatim>\<open>f_back\<close> of a
  frame is its caller, or None for the outermost frame of a thread. Reading
  \<^verbatim>\<open>f_locals\<close> or \<^verbatim>\<open>f_globals\<close> of None raises \<^verbatim>\<open>AttributeError\<close>.
  \<^verbatim>\<open>
  current_frame = inspect.currentframe()
  if current_frame is None:
      raise RuntimeError('Cannot retrieve current frame')
  caller_frame = current_frame.f_back
  if local:
      namespace = caller_frame.f_locals
  else:
      namespace = caller_frame.f_globals
  cls.__apply(namespace, override, namespace.__setitem__)
  \<close>
  The operation returns its outcome and the stack with the caller's dictionary as the
  loop left it. A frame carries the two dictionary objects that \<^verbatim>\<open>f_locals\<close> and
  \<^verbatim>\<open>f_globals\<close> evaluate to; for a caller at module level, where both are one
  object, the component that is written describes it.
\<close>

datatype 'v frame =
  Frame (f_locals: "'v dict") (f_globals: "'v dict") (f_back: "'v frame option")

definition apply_scope :: "set_order \<Rightarrow> 'v world \<Rightarrow> cid \<Rightarrow> 'v frame option \<Rightarrow> bool \<Rightarrow> bool
    \<Rightarrow> unit result \<times> 'v frame option" where
  "apply_scope it w c current_frame local override =
     (case current_frame of
        None \<Rightarrow> (Inl (RuntimeError (ascii ''Cannot retrieve current frame'')), None)
      | Some cur \<Rightarrow>
          (case f_back cur of
             None \<Rightarrow>
               (Inl (AttributeError (if local then ascii ''f_locals'' else ascii ''f_globals'')),
                current_frame)
           | Some caller_frame \<Rightarrow>
               if local
               then (case private_apply it w c (Dict (f_locals caller_frame)) override of
                       (r, namespace) \<Rightarrow>
                         (r, Some (Frame (f_locals cur) (f_globals cur)
                                     (Some (Frame (contents namespace) (f_globals caller_frame)
                                              (f_back caller_frame))))))
               else (case private_apply it w c (Dict (f_globals caller_frame)) override of
                       (r, namespace) \<Rightarrow>
                         (r, Some (Frame (f_locals cur) (f_globals cur)
                                     (Some (Frame (f_locals caller_frame) (contents namespace)
                                              (f_back caller_frame))))))))"

section \<open>Sequences of attribute operations\<close>

text \<open>
  A program assigns and deletes class attributes in any order and may catch the
  exceptions; after each operation the world is the one the operation left.
\<close>

datatype 'v attr_op = SetAttr cid pystr 'v | DelAttr cid pystr

fun step :: "ucd \<Rightarrow> 'v world \<Rightarrow> 'v attr_op \<Rightarrow> 'v world" where
  "step U w (SetAttr c name v) = snd (cls_setattr U w c name v)"
| "step U w (DelAttr c name) = snd (cls_delattr w c name)"

definition run :: "ucd \<Rightarrow> 'v world \<Rightarrow> 'v attr_op list \<Rightarrow> 'v world" where
  "run U w ops = foldl (step U) w ops"

text \<open>
  The invariant of a cache entry: the class has one, and it holds constant names only.
\<close>

definition only_constants :: "ucd \<Rightarrow> 'v world \<Rightarrow> cid \<Rightarrow> bool" where
  "only_constants U w c \<longleftrightarrow>
     (\<exists>S. class_constant_cache w c = Some S \<and> (\<forall>n\<in>S. is_const U n))"

text \<open>
  The worlds of the examples: a class \<^verbatim>\<open>A\<close> with \<^verbatim>\<open>PI = 3.14159\<close>, then a class
  \<^verbatim>\<open>B(A)\<close> with an empty body, then \<^verbatim>\<open>del A.PI\<close>.
\<close>

definition world_A :: "real world" where
  "world_A = cls_new ascii_only empty_world 0 (ascii ''A'') [] [ascii ''PI'' \<mapsto> 3.14159]"

definition world_AB :: "real world" where
  "world_AB = cls_new ascii_only world_A 1 (ascii ''B'') [0] Map.empty"

definition world_stale :: "real world" where
  "world_stale = snd (cls_delattr world_AB 0 (ascii ''PI''))"

section \<open>The naming rule\<close>

lemmas naming_defs = is_const_def isidentifier_def isupper_def startswith_def ascii_def
  is_xid_start_def is_xid_continue_def char_case_def ascii_upper_def ascii_lower_def
  ascii_digit_def

lemma isupper_from_iff:
  "isupper_from U seen s \<longleftrightarrow>
     (seen \<or> (\<exists>c\<in>set s. char_case U c = Upper))
     \<and> (\<forall>c\<in>set s. char_case U c = Upper \<or> char_case U c = Uncased)"
  by (induction s arbitrary: seen) (auto split: casing.splits)

lemma isupper_iff:
  "isupper U s \<longleftrightarrow>
     (\<exists>c\<in>set s. cased U c) \<and> (\<forall>c\<in>set s. cased U c \<longrightarrow> char_case U c = Upper)"
  unfolding isupper_def isupper_from_iff cased_def
  by (metis casing.distinct(5))

text \<open>
  An identifier of ASCII characters that does not start with an underscore starts with
  a letter, which has a case.
\<close>

lemma ascii_identifier_start_cased:
  assumes "isidentifier U name" "\<not> startswith name (ascii ''_'')" "\<forall>c\<in>set name. c < 128"
  shows "\<exists>c\<in>set name. cased U c"
proof (cases name)
  case Nil
  with assms(1) show ?thesis by (simp add: isidentifier_def)
next
  case (Cons c cs)
  from assms(2) Cons have "c \<noteq> 95" by (simp add: startswith_def ascii_def)
  moreover from assms(3) Cons have "c < 128" by simp
  ultimately have "cased U c"
    using assms(1) Cons by (auto simp: isidentifier_def is_xid_start_def cased_def char_case_def)
  with Cons show ?thesis by auto
qed

text \<open>
  Claim C2, as the specification states it: \<open>is_const name\<close> holds if and only if the
  name is a valid identifier, every cased character in it is uppercase, and it does not
  start with an underscore. This fails for an identifier made of letters without case:
  U+4E2D is a valid identifier of one character, no cased character of it is lowercase,
  it does not start with an underscore, and \<^verbatim>\<open>isupper\<close> is False for it.
\<close>

theorem is_const_uncased_letter_counterexample:
  "spec_is_const cjk_ideographs [20013] \<and> \<not> is_const cjk_ideographs [20013]"
  by (simp add: is_const_def spec_is_const_def cased_def isidentifier_def isupper_def
      startswith_def ascii_def is_xid_start_def char_case_def cjk_ideographs_def)

text \<open>
  Claim C2, amended: \<open>is_const name\<close> holds if and only if the name is a valid
  identifier, has at least one cased character, every cased character in it is
  uppercase, and it does not start with an underscore. For a name of ASCII characters
  this is the condition of the specification. In particular every valid identifier of
  uppercase ASCII letters and digits that does not start with an underscore is a
  constant name, and the empty string is none.
\<close>

theorem is_const_characterisation:
  "(is_const U name \<longleftrightarrow>
      isidentifier U name \<and> (\<exists>c\<in>set name. cased U c)
      \<and> (\<forall>c\<in>set name. cased U c \<longrightarrow> char_case U c = Upper)
      \<and> \<not> startswith name (ascii ''_''))
   \<and> ((\<forall>c\<in>set name. c < 128) \<longrightarrow> (is_const U name \<longleftrightarrow> spec_is_const U name))
   \<and> (isidentifier U name \<and> (\<forall>c\<in>set name. ascii_upper c \<or> ascii_digit c)
        \<and> \<not> startswith name (ascii ''_'') \<longrightarrow> is_const U name)
   \<and> \<not> is_const U []"
proof (intro conjI)
  show main: "is_const U name \<longleftrightarrow>
      isidentifier U name \<and> (\<exists>c\<in>set name. cased U c)
      \<and> (\<forall>c\<in>set name. cased U c \<longrightarrow> char_case U c = Upper)
      \<and> \<not> startswith name (ascii ''_'')"
    by (auto simp: is_const_def isupper_iff)
  show "(\<forall>c\<in>set name. c < 128) \<longrightarrow> (is_const U name \<longleftrightarrow> spec_is_const U name)"
    using ascii_identifier_start_cased [of U name]
    by (auto simp: main spec_is_const_def list_all_iff)
  show "isidentifier U name \<and> (\<forall>c\<in>set name. ascii_upper c \<or> ascii_digit c)
        \<and> \<not> startswith name (ascii ''_'') \<longrightarrow> is_const U name"
  proof
    assume h: "isidentifier U name \<and> (\<forall>c\<in>set name. ascii_upper c \<or> ascii_digit c)
        \<and> \<not> startswith name (ascii ''_'')"
    then have lt: "\<forall>c\<in>set name. c < 128"
      by (auto simp: ascii_upper_def ascii_digit_def)
    from h have "\<forall>c\<in>set name. cased U c \<longrightarrow> char_case U c = Upper"
      by (auto simp: cased_def char_case_def ascii_upper_def ascii_digit_def ascii_lower_def)
    with h ascii_identifier_start_cased [of U name] lt show "is_const U name"
      unfolding main by blast
  qed
  show "\<not> is_const U []"
    by (simp add: is_const_def isidentifier_def)
qed

theorem is_const_characterisation_witness:
  "list_all (\<lambda>c. c < 128) (ascii ''A1'')
   \<and> isidentifier cjk_ideographs (ascii ''A1'')
   \<and> list_all (\<lambda>c. ascii_upper c \<or> ascii_digit c) (ascii ''A1'')
   \<and> \<not> startswith (ascii ''A1'') (ascii ''_'')
   \<and> is_const cjk_ideographs (ascii ''A1'') \<and> spec_is_const cjk_ideographs (ascii ''A1'')
   \<and> (\<exists>c\<in>set (ascii ''A1''). cased cjk_ideographs c)"
proof -
  have h1: "\<forall>c\<in>set (ascii ''A1''). c < 128"
    by (simp add: ascii_def)
  have h2: "isidentifier cjk_ideographs (ascii ''A1'')
      \<and> (\<forall>c\<in>set (ascii ''A1''). ascii_upper c \<or> ascii_digit c)
      \<and> \<not> startswith (ascii ''A1'') (ascii ''_'')"
    by (simp add: isidentifier_def startswith_def ascii_def is_xid_start_def
        is_xid_continue_def ascii_upper_def ascii_digit_def)
  from is_const_characterisation [of cjk_ideographs "ascii ''A1''"] h1 h2
  show ?thesis unfolding list_all_iff by blast
qed

section \<open>Attribute lookup\<close>

text \<open>
  An attribute is found by \<^verbatim>\<open>getattr\<close> exactly when \<^verbatim>\<open>dir\<close> lists its name.
\<close>

lemma lookup_mro_None_iff:
  "lookup_mro w ks name = None \<longleftrightarrow> (\<forall>k\<in>set ks. cls_dict (classes w k) name = None)"
  by (induction ks) (auto split: option.splits)

lemma lookup_mro_cong:
  "(\<And>k. k \<in> set ks \<Longrightarrow> cls_dict (classes w' k) name = cls_dict (classes w k) name)
   \<Longrightarrow> lookup_mro w' ks name = lookup_mro w ks name"
  by (induction ks) (auto split: option.splits)

lemma getattr_Inr_iff_dir: "(\<exists>v. getattr w c name = Inr v) \<longleftrightarrow> name \<in> dir w c"
proof -
  have "(\<exists>v. getattr w c name = Inr v) \<longleftrightarrow> lookup_mro w (mro w c) name \<noteq> None"
    by (auto simp: getattr_def split: option.splits)
  also have "\<dots> \<longleftrightarrow> name \<in> dir w c"
    unfolding lookup_mro_None_iff dir_def by (auto simp: dom_def)
  finally show ?thesis .
qed

lemma getattr_cases:
  "getattr w c name = Inl (AttributeError name) \<and> name \<notin> dir w c
   \<or> (\<exists>v. getattr w c name = Inr v) \<and> name \<in> dir w c"
  using getattr_Inr_iff_dir [of w c name]
  by (cases "lookup_mro w (mro w c) name") (auto simp: getattr_def)

lemma getattr_own:
  "cls_dict (classes w c) name = Some v \<Longrightarrow> getattr w c name = Inr v"
  by (simp add: getattr_def mro_def)

lemma getattr_lookup:
  "name \<in> dir w c \<Longrightarrow> \<exists>v. lookup_mro w (mro w c) name = Some v \<and> getattr w c name = Inr v"
  using getattr_Inr_iff_dir [of w c name]
  by (cases "lookup_mro w (mro w c) name") (auto simp: getattr_def)

section \<open>What the hooks change\<close>

lemma type_setattr_simps:
  "class_constant_cache (type_setattr w c name v) = class_constant_cache w"
  "mro (type_setattr w c name v) k = mro w k"
  "cls_name (classes (type_setattr w c name v) k) = cls_name (classes w k)"
  "cls_dict (classes (type_setattr w c name v) k) n
     = (if k = c \<and> n = name then Some v else cls_dict (classes w k) n)"
  by (simp_all add: type_setattr_def mro_def)

lemma cls_setattr_registered:
  assumes "class_constant_cache w c = Some S"
  shows "cls_setattr U w c name v
     = (Inr (), (type_setattr w c name v)
          \<lparr>class_constant_cache :=
             (class_constant_cache w)(c \<mapsto> (if is_const U name then insert name S else S))\<rparr>)"
proof -
  have "(class_constant_cache w)(c \<mapsto> S) = class_constant_cache w"
    using assms by (simp add: fun_upd_idem)
  moreover have "name \<in> S \<Longrightarrow> insert name S = S" by auto
  ultimately show ?thesis
    using assms by (auto simp: cls_setattr_def Let_def type_setattr_simps)
qed

lemma lookup_mro_cache_update [simp]:
  "lookup_mro (w\<lparr>class_constant_cache := cc\<rparr>) ks n = lookup_mro w ks n"
  by (rule lookup_mro_cong) simp

lemma getattr_cache_update [simp]:
  "getattr (w\<lparr>class_constant_cache := cc\<rparr>) k n = getattr w k n"
proof -
  have "mro (w\<lparr>class_constant_cache := cc\<rparr>) k = mro w k"
    by (simp add: mro_def)
  then show ?thesis
    unfolding getattr_def by (simp only: lookup_mro_cache_update)
qed

lemma dir_cache_update [simp]: "dir (w\<lparr>class_constant_cache := cc\<rparr>) k = dir w k"
  by (simp add: dir_def mro_def)

lemma getattr_type_setattr_same: "getattr (type_setattr w c name v) c name = Inr v"
  by (rule getattr_own) (simp add: type_setattr_simps)

lemma getattr_type_setattr_other:
  "n \<noteq> name \<Longrightarrow> getattr (type_setattr w c name v) k n = getattr w k n"
  unfolding getattr_def type_setattr_simps
  by (simp add: lookup_mro_cong [of _ "type_setattr w c name v" n w] type_setattr_simps)

lemma dir_type_setattr: "dir w k \<subseteq> dir (type_setattr w c name v) k"
  by (auto simp: dir_def type_setattr_simps dom_def)

lemma type_delattr_Inr_simps:
  assumes "type_delattr w c name = Inr w1"
  shows "class_constant_cache w1 = class_constant_cache w"
    and "mro w1 k = mro w k"
    and "cls_name (classes w1 k) = cls_name (classes w k)"
    and "cls_dict (classes w1 k) n
           = (if k = c \<and> n = name then None else cls_dict (classes w k) n)"
    and "classes w1 = (classes w)
           (c := (classes w c)\<lparr>cls_dict := (cls_dict (classes w c))(name := None)\<rparr>)"
  using assms by (auto simp: type_delattr_def mro_def split: option.splits)

lemma getattr_type_delattr_other:
  assumes "type_delattr w c name = Inr w1" "n \<noteq> name"
  shows "getattr w1 k n = getattr w k n"
  unfolding getattr_def type_delattr_Inr_simps(2) [OF assms(1)]
  using assms(2)
  by (simp add: lookup_mro_cong [of _ w1 n w] type_delattr_Inr_simps(4) [OF assms(1)])

lemma cls_delattr_success:
  assumes "fst (cls_delattr w c name) = Inr ()"
  shows "\<exists>S w1. class_constant_cache w c = Some S \<and> type_delattr w c name = Inr w1
           \<and> snd (cls_delattr w c name)
               = w1\<lparr>class_constant_cache := (class_constant_cache w)(c \<mapsto> S - {name})\<rparr>"
proof -
  from assms obtain w1 where w1: "type_delattr w c name = Inr w1"
    by (cases "type_delattr w c name") (auto simp: cls_delattr_def)
  then have cc: "class_constant_cache w1 = class_constant_cache w"
    by (rule type_delattr_Inr_simps)
  with assms w1 obtain S where S: "class_constant_cache w c = Some S"
    by (cases "class_constant_cache w c") (auto simp: cls_delattr_def)
  have "(class_constant_cache w)(c \<mapsto> S) = class_constant_cache w"
    using S by (simp add: fun_upd_idem)
  moreover have "name \<notin> S \<Longrightarrow> S - {name} = S" by auto
  ultimately have "snd (cls_delattr w c name)
      = w1\<lparr>class_constant_cache := (class_constant_cache w)(c \<mapsto> S - {name})\<rparr>"
    using w1 S cc by (auto simp: cls_delattr_def)
  with S w1 show ?thesis by blast
qed

lemma cls_new_cache:
  "class_constant_cache (cls_new U w c nm ancestors ns) c
     = Some {n \<in> dir (cls_new U w c nm ancestors ns) c. is_const U n}"
  by (simp add: cls_new_def Let_def dir_def mro_def type_new_def)

section \<open>The comprehension of as_dict\<close>

text \<open>
  The comprehension returns the items of the names in their order when every name is
  found, and raises at the first name that is not.
\<close>

lemma comprehension_Inr_iff:
  "comprehension w c ns = Inr items \<longleftrightarrow>
     map fst items = ns \<and> (\<forall>(n, v)\<in>set items. getattr w c n = Inr v)"
proof (induction ns arbitrary: items)
  case Nil
  show ?case by auto
next
  case (Cons a ns)
  show ?case
  proof (cases "getattr w c a")
    case (Inl e)
    then show ?thesis by (cases items) auto
  next
    case (Inr v)
    show ?thesis
    proof (cases "comprehension w c ns")
      case (Inl e)
      with Cons.IH [of "tl items"] Inr show ?thesis
        by (cases items) auto
    next
      case r: (Inr rest)
      with Cons.IH [of rest] Cons.IH [of "tl items"] Inr show ?thesis
        by (cases items) auto
    qed
  qed
qed

lemma comprehension_total:
  assumes "set ns \<subseteq> dir w c"
  shows "\<exists>items. comprehension w c ns = Inr items"
  using assms
proof (induction ns)
  case Nil
  show ?case by simp
next
  case (Cons a ns)
  then obtain items where "comprehension w c ns = Inr items" by auto
  moreover from Cons.prems obtain v where "getattr w c a = Inr v"
    using getattr_Inr_iff_dir [of w c a] by auto
  ultimately show ?case by simp
qed

lemma comprehension_fails:
  assumes "\<not> set ns \<subseteq> dir w c"
  shows "\<exists>n\<in>set ns. n \<notin> dir w c \<and> comprehension w c ns = Inl (AttributeError n)"
  using assms
proof (induction ns)
  case Nil
  then show ?case by simp
next
  case (Cons a ns)
  from getattr_cases [of w c a] show ?case
  proof
    assume "getattr w c a = Inl (AttributeError a) \<and> a \<notin> dir w c"
    then show ?thesis by simp
  next
    assume h: "(\<exists>v. getattr w c a = Inr v) \<and> a \<in> dir w c"
    with Cons.prems have "\<not> set ns \<subseteq> dir w c" by auto
    from Cons.IH [OF this] h show ?thesis by auto
  qed
qed

lemma as_dict_total:
  assumes "class_constant_cache w c = Some S" "enumeration it" "finite S" "S \<subseteq> dir w c"
  shows "\<exists>items. as_dict it w c = Inr items \<and> map fst items = it S
           \<and> (\<forall>n v. (n, v) \<in> set items \<longleftrightarrow> n \<in> S \<and> getattr w c n = Inr v)"
proof -
  from assms(2,3) have it: "set (it S) = S" "distinct (it S)"
    by (auto simp: enumeration_def)
  with assms(4) obtain items where items: "comprehension w c (it S) = Inr items"
    using comprehension_total [of "it S" w c] by auto
  then have m: "map fst items = it S" and g: "\<forall>(n, v)\<in>set items. getattr w c n = Inr v"
    unfolding comprehension_Inr_iff by auto
  have "(n, v) \<in> set items \<longleftrightarrow> n \<in> S \<and> getattr w c n = Inr v" for n v
  proof
    assume "(n, v) \<in> set items"
    with g m it(1) show "n \<in> S \<and> getattr w c n = Inr v"
      by (force simp: image_iff dest: arg_cong [where f = set])
  next
    assume h: "n \<in> S \<and> getattr w c n = Inr v"
    with it(1) m have "n \<in> fst ` set items" by (metis set_map)
    then obtain u where "(n, u) \<in> set items" by auto
    with g h show "(n, v) \<in> set items" by auto
  qed
  with items m assms(1) show ?thesis by (simp add: as_dict_def)
qed

lemma const_names_Inr_iff:
  assumes "class_constant_cache w c = Some S"
  shows "const_names it w c = Inr names \<longleftrightarrow> names = it S \<and> set (it S) \<subseteq> dir w c"
proof
  assume "const_names it w c = Inr names"
  then obtain items where i: "comprehension w c (it S) = Inr items" and n: "names = map fst items"
    using assms by (auto simp: const_names_def as_dict_def split: sum.splits)
  from i have m: "map fst items = it S" and g: "\<forall>(n, v)\<in>set items. getattr w c n = Inr v"
    unfolding comprehension_Inr_iff by auto
  have "set (it S) \<subseteq> dir w c"
  proof
    fix x assume "x \<in> set (it S)"
    with m have "x \<in> fst ` set items" by (metis set_map)
    then obtain v where "(x, v) \<in> set items" by auto
    with g have "getattr w c x = Inr v" by auto
    then show "x \<in> dir w c" using getattr_Inr_iff_dir [of w c x] by auto
  qed
  with m n show "names = it S \<and> set (it S) \<subseteq> dir w c" by simp
next
  assume h: "names = it S \<and> set (it S) \<subseteq> dir w c"
  then obtain items where i: "comprehension w c (it S) = Inr items"
    using comprehension_total [of "it S" w c] by auto
  then have "map fst items = it S" unfolding comprehension_Inr_iff by auto
  with i h assms show "const_names it w c = Inr names"
    by (simp add: const_names_def as_dict_def)
qed

section \<open>The example worlds, evaluated\<close>

lemma is_const_examples:
  "is_const ascii_only (ascii ''PI'')"
  "is_const ascii_only (ascii ''E'')"
  "\<not> is_const ascii_only (ascii ''helper'')"
  by (simp_all add: naming_defs)

lemma names_distinct [simp]:
  "ascii ''PI'' \<noteq> ascii ''E''" "ascii ''E'' \<noteq> ascii ''PI''"
  "ascii ''helper'' \<noteq> ascii ''PI''" "ascii ''PI'' \<noteq> ascii ''helper''"
  by (simp_all add: ascii_def)

lemma cache_world_A: "class_constant_cache world_A = [0 \<mapsto> {ascii ''PI''}]"
  using is_const_examples(1)
  by (auto simp: world_A_def cls_new_def type_new_def dir_def mro_def empty_world_def Let_def)

lemma classes_world_A:
  "classes world_A = (classes (empty_world :: real world))
     (0 := \<lparr>cls_name = ascii ''A'', cls_dict = [ascii ''PI'' \<mapsto> 3.14159], cls_ancestors = []\<rparr>)"
  by (simp add: world_A_def cls_new_def type_new_def Let_def)

lemma classes_world_AB:
  "classes world_AB = (classes world_A)
     (1 := \<lparr>cls_name = ascii ''B'', cls_dict = Map.empty, cls_ancestors = [0]\<rparr>)"
  by (simp add: world_AB_def cls_new_def type_new_def Let_def)

lemma cache_world_AB:
  "class_constant_cache world_AB = [0 \<mapsto> {ascii ''PI''}, 1 \<mapsto> {ascii ''PI''}]"
  using is_const_examples(1)
  by (auto simp: world_AB_def cls_new_def type_new_def dir_def mro_def cache_world_A
      classes_world_A Let_def)

lemma cache_world_stale:
  "class_constant_cache world_stale = [0 \<mapsto> {}, 1 \<mapsto> {ascii ''PI''}]"
  by (auto simp: world_stale_def cls_delattr_def type_delattr_def cache_world_AB
      classes_world_AB classes_world_A)

lemma classes_world_stale:
  "classes world_stale = (classes world_AB)
     (0 := \<lparr>cls_name = ascii ''A'', cls_dict = Map.empty, cls_ancestors = []\<rparr>)"
  by (auto simp: world_stale_def cls_delattr_def type_delattr_def cache_world_AB
      classes_world_AB classes_world_A)

lemmas world_simps = cache_world_A classes_world_A cache_world_AB classes_world_AB
  cache_world_stale classes_world_stale empty_world_def

lemma enumeration_sorted: "enumeration sorted_list_of_set"
  by (simp add: enumeration_def)

lemma dir_world_A: "dir world_A 0 = {ascii ''PI''}"
  by (simp add: dir_def mro_def world_simps)

lemma getattr_world_A: "getattr world_A 0 (ascii ''PI'') = Inr 3.14159"
  by (simp add: getattr_def mro_def world_simps)

lemma list_of_singleton:
  assumes "set xs = {x}" and "distinct xs"
  shows "xs = [x]"
proof (cases xs)
  case Nil
  with assms(1) show ?thesis by simp
next
  case (Cons a ys)
  with assms have "a = x" and "set ys \<subseteq> {x}" and "a \<notin> set ys" by auto
  then have "ys = []" by (cases ys) auto
  with Cons \<open>a = x\<close> show ?thesis by simp
qed

lemma sorted_pair: "sorted_list_of_set {ascii ''E'', ascii ''PI''} = [ascii ''E'', ascii ''PI'']"
  by (simp add: ascii_def)

section \<open>Applying to a namespace\<close>

lemma dict_attrs_not_const: "n \<in> set dict_attrs \<Longrightarrow> \<not> is_const U n"
  unfolding dict_attrs_def
  by (auto simp: is_const_def startswith_def isupper_def char_case_def ascii_def
      ascii_upper_def ascii_lower_def)

lemma apply_loop_module:
  assumes "set names \<subseteq> dir w c" and "distinct names"
  shows "apply_loop w c override (Module m) names
     = (Inr (), Module (\<lambda>n. if n \<in> set names \<and> (override \<or> m n = None)
                             then lookup_mro w (mro w c) n else m n))"
  using assms
proof (induction names arbitrary: m)
  case Nil
  show ?case by simp
next
  case (Cons a names)
  from Cons.prems obtain v where v: "lookup_mro w (mro w c) a = Some v" "getattr w c a = Inr v"
    using getattr_lookup [of a w c] by auto
  from Cons.prems have rest: "set names \<subseteq> dir w c" "distinct names" and a: "a \<notin> set names"
    by auto
  show ?case
  proof (cases "\<not> override \<and> m a \<noteq> None")
    case True
    then have "apply_loop w c override (Module m) (a # names)
        = apply_loop w c override (Module m) names"
      using v by simp
    also have "\<dots> = (Inr (), Module (\<lambda>n. if n \<in> set names \<and> (override \<or> m n = None)
                             then lookup_mro w (mro w c) n else m n))"
      by (rule Cons.IH [OF rest])
    also have "(\<lambda>n. if n \<in> set names \<and> (override \<or> m n = None)
                             then lookup_mro w (mro w c) n else m n)
        = (\<lambda>n. if n \<in> set (a # names) \<and> (override \<or> m n = None)
                             then lookup_mro w (mro w c) n else m n)"
      using True by (auto simp: fun_eq_iff)
    finally show ?thesis .
  next
    case False
    then have "apply_loop w c override (Module m) (a # names)
        = apply_loop w c override (Module (m(a \<mapsto> v))) names"
      using v by auto
    also have "\<dots> = (Inr (), Module (\<lambda>n. if n \<in> set names \<and> (override \<or> (m(a \<mapsto> v)) n = None)
                             then lookup_mro w (mro w c) n else (m(a \<mapsto> v)) n))"
      by (rule Cons.IH [OF rest])
    also have "(\<lambda>n. if n \<in> set names \<and> (override \<or> (m(a \<mapsto> v)) n = None)
                             then lookup_mro w (mro w c) n else (m(a \<mapsto> v)) n)
        = (\<lambda>n. if n \<in> set (a # names) \<and> (override \<or> m n = None)
                             then lookup_mro w (mro w c) n else m n)"
      using False a v(1) by (auto simp: fun_eq_iff)
    finally show ?thesis .
  qed
qed

lemma apply_loop_dict:
  assumes "set names \<subseteq> dir w c" and "set names \<inter> set dict_attrs = {}"
  shows "apply_loop w c override (Dict d) names
     = (Inr (), Dict (\<lambda>n. if n \<in> set names then lookup_mro w (mro w c) n else d n))"
  using assms
proof (induction names arbitrary: d)
  case Nil
  show ?case by simp
next
  case (Cons a names)
  from Cons.prems obtain v where v: "lookup_mro w (mro w c) a = Some v" "getattr w c a = Inr v"
    using getattr_lookup [of a w c] by auto
  from Cons.prems have rest: "set names \<subseteq> dir w c" "set names \<inter> set dict_attrs = {}"
    and a: "a \<notin> set dict_attrs"
    by auto
  from v a have "apply_loop w c override (Dict d) (a # names)
      = apply_loop w c override (Dict (d(a \<mapsto> v))) names"
    by simp
  also have "\<dots> = (Inr (), Dict (\<lambda>n. if n \<in> set names then lookup_mro w (mro w c) n
                                      else (d(a \<mapsto> v)) n))"
    by (rule Cons.IH [OF rest])
  also have "(\<lambda>n. if n \<in> set names then lookup_mro w (mro w c) n else (d(a \<mapsto> v)) n)
      = (\<lambda>n. if n \<in> set (a # names) then lookup_mro w (mro w c) n else d n)"
    using v(1) by (auto simp: fun_eq_iff)
  finally show ?case .
qed

text \<open>
  Module mode: every registered name is written, unless \<open>override\<close> is off and the
  module has the name already.
\<close>

lemma apply_to_module_honours_override:
  assumes "modules module_name = Some m" and "class_constant_cache w c = Some S"
    and "enumeration it" and "finite S" and "S \<subseteq> dir w c"
  shows "apply_to_module it w c modules module_name override
     = (Inr (), modules(module_name \<mapsto>
          (\<lambda>n. if n \<in> S \<and> (override \<or> m n = None)
               then lookup_mro w (mro w c) n else m n)))"
proof -
  from assms(3,4) have it: "set (it S) = S" "distinct (it S)"
    by (auto simp: enumeration_def)
  with assms(5) have "apply_loop w c override (Module m) (it S)
     = (Inr (), Module (\<lambda>n. if n \<in> set (it S) \<and> (override \<or> m n = None)
                             then lookup_mro w (mro w c) n else m n))"
    by (intro apply_loop_module) simp_all
  with assms(1,2) it(1) show ?thesis
    by (simp add: apply_to_module_def private_apply_def)
qed

text \<open>
  Scope mode: \<^verbatim>\<open>hasattr\<close> of a dictionary never finds a constant name, so every
  registered name is written into the caller's dictionary whatever \<open>override\<close> is.
\<close>

lemma apply_scope_ignores_override:
  assumes "class_constant_cache w c = Some S" and "enumeration it" and "finite S"
    and "S \<subseteq> dir w c" and "\<forall>n\<in>S. is_const U n"
  shows "apply_scope it w c (Some (Frame l g (Some (Frame cl cg back)))) False override
     = (Inr (), Some (Frame l g (Some (Frame cl
          (\<lambda>n. if n \<in> S then lookup_mro w (mro w c) n else cg n) back))))"
    and "apply_scope it w c (Some (Frame l g (Some (Frame cl cg back)))) True override
     = (Inr (), Some (Frame l g (Some (Frame
          (\<lambda>n. if n \<in> S then lookup_mro w (mro w c) n else cl n) cg back))))"
proof -
  from assms(2,3) have it: "set (it S) = S"
    by (auto simp: enumeration_def)
  from assms(5) have "S \<inter> set dict_attrs = {}"
    using dict_attrs_not_const [of _ U] by auto
  with it assms(4) have loop: "apply_loop w c override (Dict d) (it S)
     = (Inr (), Dict (\<lambda>n. if n \<in> S then lookup_mro w (mro w c) n else d n))" for d
    using apply_loop_dict [of "it S" w c override d] by simp
  show "apply_scope it w c (Some (Frame l g (Some (Frame cl cg back)))) False override
     = (Inr (), Some (Frame l g (Some (Frame cl
          (\<lambda>n. if n \<in> S then lookup_mro w (mro w c) n else cg n) back))))"
    using assms(1) loop by (simp add: apply_scope_def private_apply_def)
  show "apply_scope it w c (Some (Frame l g (Some (Frame cl cg back)))) True override
     = (Inr (), Some (Frame l g (Some (Frame
          (\<lambda>n. if n \<in> S then lookup_mro w (mro w c) n else cl n) cg back))))"
    using assms(1) loop by (simp add: apply_scope_def private_apply_def)
qed

text \<open>
  Claim C1: with \<open>override\<close> off, applying skips every name that the target has
  already, in module mode and in scope mode alike. The code evaluated where it departs
  from this: the class \<^verbatim>\<open>A\<close> with \<^verbatim>\<open>PI = 3.14159\<close> is applied, with
  \<open>override\<close> off, to a caller whose globals hold \<^verbatim>\<open>PI = 0\<close>, and the globals
  end with \<^verbatim>\<open>PI = 3.14159\<close>. In module mode, at the same input, the module keeps
  \<^verbatim>\<open>PI = 0\<close>, and gets the new value when \<open>override\<close> is on.
\<close>

theorem apply_scope_overwrites_existing_name:
  "apply_scope sorted_list_of_set world_A 0
     (Some (Frame Map.empty Map.empty (Some (Frame Map.empty [ascii ''PI'' \<mapsto> 0] None))))
     False False
   = (Inr (),
      Some (Frame Map.empty Map.empty (Some (Frame Map.empty [ascii ''PI'' \<mapsto> 3.14159] None))))
   \<and> apply_to_module sorted_list_of_set world_A 0 [ascii ''m'' \<mapsto> [ascii ''PI'' \<mapsto> 0]]
       (ascii ''m'') False
   = (Inr (), [ascii ''m'' \<mapsto> [ascii ''PI'' \<mapsto> 0]])
   \<and> apply_to_module sorted_list_of_set world_A 0 [ascii ''m'' \<mapsto> [ascii ''PI'' \<mapsto> 0]]
       (ascii ''m'') True
   = (Inr (), [ascii ''m'' \<mapsto> [ascii ''PI'' \<mapsto> 3.14159]])"
proof -
  have "ascii ''PI'' \<notin> set dict_attrs"
    using dict_attrs_not_const [of "ascii ''PI''" ascii_only] is_const_examples(1) by blast
  then show ?thesis
    using getattr_world_A
    by (simp add: apply_scope_def apply_to_module_def private_apply_def world_simps)
qed

section \<open>No caller frame\<close>

text \<open>
  Claim C3: when the calling scope cannot be determined, also when there is no caller
  frame, applying fails with the error for an unavailable execution context and writes
  nothing. The code evaluated: without a current frame it raises the
  \<^verbatim>\<open>RuntimeError\<close>; with a current frame that has no caller it writes nothing,
  and the error is the \<^verbatim>\<open>AttributeError\<close> of reading \<^verbatim>\<open>f_globals\<close> (or
  \<^verbatim>\<open>f_locals\<close>) of None.
\<close>

theorem apply_without_caller_frame:
  "apply_scope it w c None local override
     = (Inl (RuntimeError (ascii ''Cannot retrieve current frame'')), None)
   \<and> apply_scope it w c (Some (Frame l g None)) local override
     = (Inl (AttributeError (if local then ascii ''f_locals'' else ascii ''f_globals'')),
        Some (Frame l g None))"
  by (simp add: apply_scope_def)

section \<open>Lookup by name\<close>

text \<open>
  The outcomes of the lookup for a class with a cache entry \<open>S\<close>. A name in \<open>S\<close> that
  is visible on the class (its own or inherited) gives the live value of the attribute;
  a name outside \<open>S\<close> raises the \<^verbatim>\<open>ValueError\<close> whose message ends with the names
  of \<open>S\<close>, each once, joined by a comma and a space. A name in \<open>S\<close> that is not
  visible on the class lets the \<^verbatim>\<open>AttributeError\<close> of \<^verbatim>\<open>getattr\<close> through.
\<close>

lemma getitem_outcomes:
  assumes "class_constant_cache w c = Some S" and "enumeration it" and "finite S"
  shows "(item \<in> S \<and> item \<in> dir w c \<longrightarrow>
            (\<exists>v. getattr w c item = Inr v \<and> cls_getitem it w c item = Inr v))
       \<and> (item \<in> S \<and> item \<notin> dir w c \<longrightarrow>
            cls_getitem it w c item = Inl (AttributeError item))
       \<and> (item \<notin> S \<longrightarrow>
            (\<exists>names. set names = S \<and> distinct names
               \<and> cls_getitem it w c item
                   = Inl (ValueError (no_constant_message (cls_name (classes w c)) item
                                        (join (ascii '', '') names)))))"
proof (intro conjI impI)
  assume "item \<in> S \<and> item \<in> dir w c"
  with assms(1) getattr_cases [of w c item]
  show "\<exists>v. getattr w c item = Inr v \<and> cls_getitem it w c item = Inr v"
    by (auto simp: cls_getitem_def)
next
  assume "item \<in> S \<and> item \<notin> dir w c"
  with assms(1) getattr_cases [of w c item]
  show "cls_getitem it w c item = Inl (AttributeError item)"
    by (auto simp: cls_getitem_def)
next
  assume "item \<notin> S"
  with assms(1) have "cls_getitem it w c item
      = Inl (ValueError (no_constant_message (cls_name (classes w c)) item
                           (join (ascii '', '') (it S))))"
    by (simp add: cls_getitem_def)
  moreover from assms(2,3) have "set (it S) = S \<and> distinct (it S)"
    by (simp add: enumeration_def)
  ultimately show "\<exists>names. set names = S \<and> distinct names
      \<and> cls_getitem it w c item
          = Inl (ValueError (no_constant_message (cls_name (classes w c)) item
                               (join (ascii '', '') names)))"
    by blast
qed

lemma getitem_outcomes_example:
  "class_constant_cache world_A 0 = Some {ascii ''PI''}
   \<and> enumeration sorted_list_of_set \<and> finite {ascii ''PI''}
   \<and> ascii ''PI'' \<in> dir world_A 0
   \<and> cls_getitem sorted_list_of_set world_A 0 (ascii ''PI'') = Inr 3.14159
   \<and> ascii ''helper'' \<notin> {ascii ''PI''}
   \<and> cls_getitem sorted_list_of_set world_A 0 (ascii ''helper'')
       = Inl (ValueError (ascii
           ''Class A does not contain a constant named helper. Existing constants are PI''))"
proof -
  have h1: "class_constant_cache world_A 0 = Some {ascii ''PI''}"
    by (simp add: world_simps)
  have h3: "finite {ascii ''PI''}" by simp
  note t = getitem_outcomes [OF h1 enumeration_sorted h3]
  have pi: "ascii ''PI'' \<in> {ascii ''PI''} \<and> ascii ''PI'' \<in> dir world_A 0"
    by (simp add: dir_world_A)
  with t [of "ascii ''PI''"] getattr_world_A
  have r1: "cls_getitem sorted_list_of_set world_A 0 (ascii ''PI'') = Inr 3.14159"
    by auto
  have hl: "ascii ''helper'' \<notin> {ascii ''PI''}" by simp
  with t [of "ascii ''helper''"] obtain names where
    n: "set names = {ascii ''PI''}" "distinct names"
    and g: "cls_getitem sorted_list_of_set world_A 0 (ascii ''helper'')
       = Inl (ValueError (no_constant_message (cls_name (classes world_A 0)) (ascii ''helper'')
                            (join (ascii '', '') names)))"
    by blast
  from n have "names = [ascii ''PI'']" by (rule list_of_singleton)
  with g have r2: "cls_getitem sorted_list_of_set world_A 0 (ascii ''helper'')
       = Inl (ValueError (ascii
           ''Class A does not contain a constant named helper. Existing constants are PI''))"
    by (simp add: no_constant_message_def world_simps ascii_def)
  from h1 enumeration_sorted h3 pi r1 hl r2 show ?thesis by blast
qed

text \<open>
  Claim C4: the lookup of a registered name returns the live value of the attribute,
  and the lookup of any other name raises the \<^verbatim>\<open>ValueError\<close> that lists exactly
  the registered names. The code evaluated where it departs from this. \<^verbatim>\<open>B(A)\<close>
  inherits \<^verbatim>\<open>PI\<close>, which its cache entry records, and \<^verbatim>\<open>B['PI']\<close> is
  3.14159. Then \<^verbatim>\<open>del A.PI\<close> takes the name out of the cache entry of
  \<^verbatim>\<open>A\<close> only: the entry of \<^verbatim>\<open>B\<close> still holds \<^verbatim>\<open>PI\<close>, no attribute of
  \<^verbatim>\<open>B\<close> is left, \<^verbatim>\<open>B['PI']\<close> raises \<^verbatim>\<open>AttributeError\<close>, and the
  message for another name lists \<^verbatim>\<open>PI\<close> as an existing constant.
\<close>

theorem getitem_of_lost_inherited_name:
  "cls_getitem sorted_list_of_set world_AB 1 (ascii ''PI'') = Inr 3.14159
   \<and> class_constant_cache world_stale 0 = Some {}
   \<and> class_constant_cache world_stale 1 = Some {ascii ''PI''}
   \<and> dir world_stale 1 = {}
   \<and> cls_getitem sorted_list_of_set world_stale 1 (ascii ''PI'')
       = Inl (AttributeError (ascii ''PI''))
   \<and> cls_getitem sorted_list_of_set world_stale 1 (ascii ''X'')
       = Inl (ValueError (ascii
           ''Class B does not contain a constant named X. Existing constants are PI''))"
proof -
  have x: "ascii ''X'' \<noteq> ascii ''PI''" by (simp add: ascii_def)
  have r1: "cls_getitem sorted_list_of_set world_AB 1 (ascii ''PI'') = Inr 3.14159"
    by (simp add: cls_getitem_def getattr_def mro_def world_simps)
  have r2: "class_constant_cache world_stale 0 = Some {}"
    by (simp add: world_simps)
  have r3: "class_constant_cache world_stale 1 = Some {ascii ''PI''}"
    by (simp add: world_simps)
  have r4: "dir world_stale 1 = {}"
    by (simp add: dir_def mro_def world_simps)
  have r5: "cls_getitem sorted_list_of_set world_stale 1 (ascii ''PI'')
       = Inl (AttributeError (ascii ''PI''))"
    by (simp add: cls_getitem_def getattr_def mro_def world_simps)
  have "cls_getitem sorted_list_of_set world_stale 1 (ascii ''X'')
       = Inl (ValueError (no_constant_message (ascii ''B'') (ascii ''X'')
                            (join (ascii '', '') [ascii ''PI''])))"
    using x by (simp add: cls_getitem_def world_simps)
  then have r6: "cls_getitem sorted_list_of_set world_stale 1 (ascii ''X'')
       = Inl (ValueError (ascii
           ''Class B does not contain a constant named X. Existing constants are PI''))"
    by (simp add: no_constant_message_def ascii_def)
  show ?thesis by (intro conjI r1 r2 r3 r4 r5 r6)
qed

section \<open>Class creation\<close>

text \<open>
  Claim C5: the cache entry made when a class is defined holds exactly the names that
  satisfy \<open>is_const\<close> among the attribute names visible on the new class, and the
  visible names are those of its own dictionary and of the dictionaries of the classes
  it inherits from.
\<close>

theorem new_class_registers_visible_constants:
  "class_constant_cache (cls_new U w c nm ancestors ns) c
     = Some {n. is_const U n \<and> (\<exists>v. getattr (cls_new U w c nm ancestors ns) c n = Inr v)}
   \<and> {n. \<exists>v. getattr (cls_new U w c nm ancestors ns) c n = Inr v}
     = dom ns \<union> (\<Union>k\<in>set ancestors. dom (cls_dict (classes (cls_new U w c nm ancestors ns) k)))"
proof
  show "class_constant_cache (cls_new U w c nm ancestors ns) c
     = Some {n. is_const U n \<and> (\<exists>v. getattr (cls_new U w c nm ancestors ns) c n = Inr v)}"
    unfolding cls_new_cache getattr_Inr_iff_dir by auto
  have "dir (cls_new U w c nm ancestors ns) c
     = dom ns \<union> (\<Union>k\<in>set ancestors. dom (cls_dict (classes (cls_new U w c nm ancestors ns) k)))"
    by (simp add: dir_def mro_def cls_new_def type_new_def Let_def)
  then show "{n. \<exists>v. getattr (cls_new U w c nm ancestors ns) c n = Inr v}
     = dom ns \<union> (\<Union>k\<in>set ancestors. dom (cls_dict (classes (cls_new U w c nm ancestors ns) k)))"
    unfolding getattr_Inr_iff_dir by auto
qed

theorem new_class_registers_visible_constants_witness:
  "cls_dict (classes world_AB 1) (ascii ''PI'') = None
   \<and> getattr world_AB 1 (ascii ''PI'') = Inr 3.14159
   \<and> class_constant_cache world_AB 1 = Some {ascii ''PI''}"
proof -
  have d: "cls_dict (classes world_AB 1) (ascii ''PI'') = None"
    by (simp add: world_simps)
  have g: "getattr world_AB 1 (ascii ''PI'') = Inr 3.14159"
    by (simp add: getattr_def mro_def world_simps)
  have "dir world_AB 1 = {ascii ''PI''}"
    by (simp add: dir_def mro_def world_simps)
  then have v: "{n. \<exists>v. getattr world_AB 1 n = Inr v} = {ascii ''PI''}"
    unfolding getattr_Inr_iff_dir by simp
  from new_class_registers_visible_constants
    [of ascii_only world_A 1 "ascii ''B''" "[0]" Map.empty, folded world_AB_def]
  have "class_constant_cache world_AB 1
      = Some {n. is_const ascii_only n \<and> (\<exists>v. getattr world_AB 1 n = Inr v)}"
    by (rule conjunct1)
  also have "{n. is_const ascii_only n \<and> (\<exists>v. getattr world_AB 1 n = Inr v)}
      = {n. is_const ascii_only n} \<inter> {n. \<exists>v. getattr world_AB 1 n = Inr v}"
    by auto
  also have "\<dots> = {ascii ''PI''}"
    unfolding v using is_const_examples(1) by auto
  finally have c: "class_constant_cache world_AB 1 = Some {ascii ''PI''}" .
  show ?thesis by (intro conjI d g c)
qed

section \<open>Attribute assignment\<close>

text \<open>
  What an assignment does for a class with a cache entry \<open>S\<close>: it succeeds, stores
  the value in the dictionary of the class, and leaves the cache entry
  \<open>insert name S\<close> when the name satisfies \<open>is_const\<close> and \<open>S\<close> when it does not; a
  constant name is then looked up to the assigned value; and \<^verbatim>\<open>const_names\<close> lists
  it, together with the names of \<open>S\<close>, when every other name of \<open>S\<close> is visible on the
  class.
\<close>

lemma setattr_registers_constant:
  assumes "class_constant_cache w c = Some S"
  shows "fst (cls_setattr U w c name v) = Inr ()
       \<and> classes (snd (cls_setattr U w c name v))
           = (classes w)(c := (classes w c)\<lparr>cls_dict := (cls_dict (classes w c))(name \<mapsto> v)\<rparr>)
       \<and> class_constant_cache (snd (cls_setattr U w c name v))
           = (class_constant_cache w)(c \<mapsto> (if is_const U name then insert name S else S))
       \<and> (is_const U name \<longrightarrow> cls_getitem it (snd (cls_setattr U w c name v)) c name = Inr v)
       \<and> (is_const U name \<and> enumeration it \<and> finite S \<and> S - {name} \<subseteq> dir w c \<longrightarrow>
            (\<exists>names. const_names it (snd (cls_setattr U w c name v)) c = Inr names
               \<and> distinct names \<and> set names = insert name S))"
proof -
  let ?w' = "snd (cls_setattr U w c name v)"
  let ?S' = "if is_const U name then insert name S else S"
  have w': "cls_setattr U w c name v = (Inr (), (type_setattr w c name v)
      \<lparr>class_constant_cache := (class_constant_cache w)(c \<mapsto> ?S')\<rparr>)"
    by (rule cls_setattr_registered [OF assms])
  have cache': "class_constant_cache ?w' c = Some ?S'"
    unfolding w' by simp
  have same: "getattr ?w' c name = Inr v"
    unfolding w' by (simp add: getattr_type_setattr_same)
  have c1: "fst (cls_setattr U w c name v) = Inr ()"
    unfolding w' by simp
  have c2: "classes ?w' = (classes w)
      (c := (classes w c)\<lparr>cls_dict := (cls_dict (classes w c))(name \<mapsto> v)\<rparr>)"
    unfolding w' by (simp add: type_setattr_def)
  have c3: "class_constant_cache ?w' = (class_constant_cache w)(c \<mapsto> ?S')"
    unfolding w' by simp
  have c4: "cls_getitem it ?w' c name = Inr v" if "is_const U name"
    using that cache' same by (simp add: cls_getitem_def)
  have c5: "\<exists>names. const_names it ?w' c = Inr names \<and> distinct names \<and> set names = insert name S"
    if h: "is_const U name \<and> enumeration it \<and> finite S \<and> S - {name} \<subseteq> dir w c"
  proof -
    from h cache' have cache'': "class_constant_cache ?w' c = Some (insert name S)" by simp
    from h have it: "set (it (insert name S)) = insert name S" "distinct (it (insert name S))"
      by (auto simp: enumeration_def)
    have "name \<in> dir ?w' c"
      using same getattr_Inr_iff_dir [of ?w' c name] by auto
    moreover have "S - {name} \<subseteq> dir ?w' c"
      unfolding w' using h dir_type_setattr [of w c c name v] by auto
    ultimately have "set (it (insert name S)) \<subseteq> dir ?w' c"
      using it(1) by auto
    then have "const_names it ?w' c = Inr (it (insert name S))"
      using const_names_Inr_iff [OF cache''] by simp
    with it show ?thesis by auto
  qed
  from c1 c2 c3 c4 c5 show ?thesis by blast
qed

lemma setattr_registers_constant_example:
  "class_constant_cache world_A 0 = Some {ascii ''PI''}
   \<and> is_const ascii_only (ascii ''E'') \<and> enumeration sorted_list_of_set
   \<and> finite {ascii ''PI''} \<and> {ascii ''PI''} - {ascii ''E''} \<subseteq> dir world_A 0
   \<and> fst (cls_setattr ascii_only world_A 0 (ascii ''E'') 2.71828) = Inr ()
   \<and> class_constant_cache (snd (cls_setattr ascii_only world_A 0 (ascii ''E'') 2.71828)) 0
       = Some {ascii ''E'', ascii ''PI''}
   \<and> cls_getitem sorted_list_of_set
        (snd (cls_setattr ascii_only world_A 0 (ascii ''E'') 2.71828)) 0 (ascii ''E'')
       = Inr 2.71828
   \<and> (\<exists>names. const_names sorted_list_of_set
          (snd (cls_setattr ascii_only world_A 0 (ascii ''E'') 2.71828)) 0 = Inr names
        \<and> distinct names \<and> set names = {ascii ''E'', ascii ''PI''})"
proof -
  have h1: "class_constant_cache world_A 0 = Some {ascii ''PI''}"
    by (simp add: world_simps)
  have h3: "finite {ascii ''PI''}" by simp
  have vis: "{ascii ''PI''} - {ascii ''E''} \<subseteq> dir world_A 0" by (simp add: dir_world_A)
  note t = setattr_registers_constant [OF h1, of ascii_only "ascii ''E''" "2.71828" sorted_list_of_set]
  from t have r1: "fst (cls_setattr ascii_only world_A 0 (ascii ''E'') 2.71828) = Inr ()"
    by (rule conjunct1)
  from t have "class_constant_cache (snd (cls_setattr ascii_only world_A 0 (ascii ''E'') 2.71828))
       = (class_constant_cache world_A)(0 \<mapsto>
           (if is_const ascii_only (ascii ''E'') then insert (ascii ''E'') {ascii ''PI''}
            else {ascii ''PI''}))"
    by (elim conjE)
  then have r2:
    "class_constant_cache (snd (cls_setattr ascii_only world_A 0 (ascii ''E'') 2.71828)) 0
       = Some {ascii ''E'', ascii ''PI''}"
    using is_const_examples(2) by simp
  from t have "is_const ascii_only (ascii ''E'') \<longrightarrow>
      cls_getitem sorted_list_of_set
        (snd (cls_setattr ascii_only world_A 0 (ascii ''E'') 2.71828)) 0 (ascii ''E'')
       = Inr 2.71828"
    by (elim conjE)
  with is_const_examples(2) have r3: "cls_getitem sorted_list_of_set
        (snd (cls_setattr ascii_only world_A 0 (ascii ''E'') 2.71828)) 0 (ascii ''E'')
       = Inr 2.71828"
    by (rule rev_mp)
  from t have "is_const ascii_only (ascii ''E'') \<and> enumeration sorted_list_of_set
      \<and> finite {ascii ''PI''} \<and> {ascii ''PI''} - {ascii ''E''} \<subseteq> dir world_A 0 \<longrightarrow>
      (\<exists>names. const_names sorted_list_of_set
          (snd (cls_setattr ascii_only world_A 0 (ascii ''E'') 2.71828)) 0 = Inr names
        \<and> distinct names \<and> set names = insert (ascii ''E'') {ascii ''PI''})"
    by (elim conjE)
  with is_const_examples(2) enumeration_sorted h3 vis
  have r4: "\<exists>names. const_names sorted_list_of_set
          (snd (cls_setattr ascii_only world_A 0 (ascii ''E'') 2.71828)) 0 = Inr names
        \<and> distinct names \<and> set names = {ascii ''E'', ascii ''PI''}"
    by simp
  show ?thesis
    by (intro conjI h1 is_const_examples(2) enumeration_sorted h3 vis r1 r2 r3 r4)
qed

text \<open>
  Claim C6: an assignment performs the normal assignment and registers a constant
  name, so that the new constant appears in \<^verbatim>\<open>const_names\<close> and is found by
  lookup. The code evaluated where it departs from this. After \<^verbatim>\<open>del A.PI\<close> the
  cache entry of \<^verbatim>\<open>B(A)\<close> still holds \<^verbatim>\<open>PI\<close>; \<^verbatim>\<open>B.E = 2.71828\<close>
  succeeds, and \<^verbatim>\<open>B.const_names\<close> raises \<^verbatim>\<open>AttributeError\<close> for
  \<^verbatim>\<open>PI\<close> instead of listing \<^verbatim>\<open>E\<close>.
\<close>

theorem const_names_after_lost_inherited_name:
  "class_constant_cache world_stale 1 = Some {ascii ''PI''}
   \<and> is_const ascii_only (ascii ''E'')
   \<and> fst (cls_setattr ascii_only world_stale 1 (ascii ''E'') 2.71828) = Inr ()
   \<and> const_names sorted_list_of_set
        (snd (cls_setattr ascii_only world_stale 1 (ascii ''E'') 2.71828)) 1
       = Inl (AttributeError (ascii ''PI''))"
proof -
  have h1: "class_constant_cache world_stale 1 = Some {ascii ''PI''}"
    by (simp add: world_simps)
  note w' = cls_setattr_registered [OF h1, of ascii_only "ascii ''E''" "2.71828"]
  have g1: "getattr (type_setattr world_stale 1 (ascii ''E'') 2.71828) 1 (ascii ''E'') = Inr 2.71828"
    by (rule getattr_type_setattr_same)
  have "getattr world_stale 1 (ascii ''PI'') = Inl (AttributeError (ascii ''PI''))"
    by (simp add: getattr_def mro_def world_simps)
  then have g2: "getattr (type_setattr world_stale 1 (ascii ''E'') 2.71828) 1 (ascii ''PI'')
      = Inl (AttributeError (ascii ''PI''))"
    by (simp add: getattr_type_setattr_other)
  have "const_names sorted_list_of_set
        (snd (cls_setattr ascii_only world_stale 1 (ascii ''E'') 2.71828)) 1
       = Inl (AttributeError (ascii ''PI''))"
    unfolding w' using is_const_examples(2) g1 g2
    by (simp add: const_names_def as_dict_def sorted_pair)
  with h1 is_const_examples(2) w' show ?thesis by simp
qed

section \<open>Attribute deletion\<close>

text \<open>
  Claim C7: a deletion that succeeds removes the name from the dictionary of the class
  and from its cache entry; the lookup of the name then raises the \<^verbatim>\<open>ValueError\<close>
  that lists the remaining names, no list that \<^verbatim>\<open>const_names\<close> returns has the
  name, and \<^verbatim>\<open>const_names\<close> returns the remaining names whenever it returned a
  list before the deletion.
\<close>

theorem delattr_unregisters:
  assumes "fst (cls_delattr w c name) = Inr ()"
  shows "\<exists>S. class_constant_cache w c = Some S
       \<and> classes (snd (cls_delattr w c name))
           = (classes w)(c := (classes w c)\<lparr>cls_dict := (cls_dict (classes w c))(name := None)\<rparr>)
       \<and> class_constant_cache (snd (cls_delattr w c name))
           = (class_constant_cache w)(c \<mapsto> S - {name})
       \<and> cls_getitem it (snd (cls_delattr w c name)) c name
           = Inl (ValueError (no_constant_message (cls_name (classes w c)) name
                                (join (ascii '', '') (it (S - {name})))))
       \<and> (enumeration it \<and> finite S \<longrightarrow>
            (\<forall>names. const_names it (snd (cls_delattr w c name)) c = Inr names
               \<longrightarrow> name \<notin> set names))
       \<and> (enumeration it \<and> finite S \<and> (\<exists>names. const_names it w c = Inr names) \<longrightarrow>
            (\<exists>names. const_names it (snd (cls_delattr w c name)) c = Inr names
               \<and> set names = S - {name}))"
proof -
  let ?w' = "snd (cls_delattr w c name)"
  from cls_delattr_success [OF assms] obtain S w1 where
    S: "class_constant_cache w c = Some S" and w1: "type_delattr w c name = Inr w1"
    and w': "?w' = w1\<lparr>class_constant_cache := (class_constant_cache w)(c \<mapsto> S - {name})\<rparr>"
    by blast
  have cache': "class_constant_cache ?w' c = Some (S - {name})"
    unfolding w' by simp
  have c2: "classes ?w' = (classes w)
      (c := (classes w c)\<lparr>cls_dict := (cls_dict (classes w c))(name := None)\<rparr>)"
    unfolding w' using type_delattr_Inr_simps(5) [OF w1] by simp
  have c3: "class_constant_cache ?w' = (class_constant_cache w)(c \<mapsto> S - {name})"
    unfolding w' by simp
  have nm: "cls_name (classes ?w' c) = cls_name (classes w c)"
    unfolding w' using type_delattr_Inr_simps(3) [OF w1] by simp
  have c4: "cls_getitem it ?w' c name
      = Inl (ValueError (no_constant_message (cls_name (classes w c)) name
                           (join (ascii '', '') (it (S - {name})))))"
    using cache' nm by (simp add: cls_getitem_def)
  have other: "getattr ?w' c n = getattr w c n" if "n \<noteq> name" for n
    unfolding w' using getattr_type_delattr_other [OF w1 that] by simp
  have c5: "\<forall>names. const_names it ?w' c = Inr names \<longrightarrow> name \<notin> set names"
    if h: "enumeration it \<and> finite S"
  proof -
    from h have "set (it (S - {name})) = S - {name}" by (simp add: enumeration_def)
    then show ?thesis using const_names_Inr_iff [OF cache'] by auto
  qed
  have c6: "\<exists>names. const_names it ?w' c = Inr names \<and> set names = S - {name}"
    if h: "enumeration it \<and> finite S \<and> (\<exists>names. const_names it w c = Inr names)"
  proof -
    from h have it: "set (it S) = S" "set (it (S - {name})) = S - {name}"
      by (simp_all add: enumeration_def)
    from h const_names_Inr_iff [OF S] it(1) have vis: "S \<subseteq> dir w c" by auto
    have "S - {name} \<subseteq> dir ?w' c"
    proof
      fix n assume n: "n \<in> S - {name}"
      with vis obtain u where "getattr w c n = Inr u"
        using getattr_Inr_iff_dir [of w c n] by auto
      with other [of n] n have "getattr ?w' c n = Inr u" by simp
      then show "n \<in> dir ?w' c" using getattr_Inr_iff_dir [of ?w' c n] by auto
    qed
    with it(2) have "const_names it ?w' c = Inr (it (S - {name}))"
      using const_names_Inr_iff [OF cache'] by simp
    with it(2) show ?thesis by auto
  qed
  from S c2 c3 c4 c5 c6 show ?thesis by blast
qed

theorem delattr_unregisters_witness:
  "fst (cls_delattr world_A 0 (ascii ''PI'')) = Inr ()
   \<and> class_constant_cache (snd (cls_delattr world_A 0 (ascii ''PI''))) 0 = Some {}
   \<and> cls_getitem sorted_list_of_set (snd (cls_delattr world_A 0 (ascii ''PI''))) 0 (ascii ''PI'')
       = Inl (ValueError (ascii
           ''Class A does not contain a constant named PI. Existing constants are ''))
   \<and> const_names sorted_list_of_set (snd (cls_delattr world_A 0 (ascii ''PI''))) 0 = Inr []"
proof -
  have h: "fst (cls_delattr world_A 0 (ascii ''PI'')) = Inr ()"
    by (simp add: cls_delattr_def type_delattr_def world_simps)
  have names: "const_names sorted_list_of_set world_A 0 = Inr [ascii ''PI'']"
    using getattr_world_A by (simp add: const_names_def as_dict_def world_simps)
  from delattr_unregisters [OF h, of sorted_list_of_set] obtain S where
    S: "class_constant_cache world_A 0 = Some S"
    and c: "class_constant_cache (snd (cls_delattr world_A 0 (ascii ''PI'')))
           = (class_constant_cache world_A)(0 \<mapsto> S - {ascii ''PI''})"
    and g: "cls_getitem sorted_list_of_set (snd (cls_delattr world_A 0 (ascii ''PI''))) 0 (ascii ''PI'')
           = Inl (ValueError (no_constant_message (cls_name (classes world_A 0)) (ascii ''PI'')
                                (join (ascii '', '') (sorted_list_of_set (S - {ascii ''PI''})))))"
    and n: "enumeration sorted_list_of_set \<and> finite S
            \<and> (\<exists>names. const_names sorted_list_of_set world_A 0 = Inr names) \<longrightarrow>
            (\<exists>names. const_names sorted_list_of_set (snd (cls_delattr world_A 0 (ascii ''PI''))) 0
                = Inr names \<and> set names = S - {ascii ''PI''})"
    by (elim exE conjE) (rule that; assumption)
  from S have S': "S = {ascii ''PI''}" by (simp add: world_simps)
  from c have r2: "class_constant_cache (snd (cls_delattr world_A 0 (ascii ''PI''))) 0 = Some {}"
    by (simp add: S')
  from g have r3: "cls_getitem sorted_list_of_set (snd (cls_delattr world_A 0 (ascii ''PI''))) 0
        (ascii ''PI'')
       = Inl (ValueError (ascii
           ''Class A does not contain a constant named PI. Existing constants are ''))"
    by (simp add: S' no_constant_message_def world_simps ascii_def)
  from n names enumeration_sorted
  have r4: "const_names sorted_list_of_set (snd (cls_delattr world_A 0 (ascii ''PI''))) 0 = Inr []"
    by (simp add: S')
  show ?thesis by (intro conjI h r2 r3 r4)
qed

section \<open>The constants as a dictionary\<close>

text \<open>
  What \<^verbatim>\<open>as_dict\<close> returns for a class with a cache entry \<open>S\<close>. When every name
  of \<open>S\<close> is visible on the class, it is a dictionary whose keys are the names of
  \<open>S\<close>, each once, and whose value at a name is the value that \<^verbatim>\<open>getattr\<close> yields
  at the moment of the call; after a registered name is assigned a new value,
  \<^verbatim>\<open>as_dict\<close> has the new value at that name and the values it had at the others.
  When some name of \<open>S\<close> is not visible, the \<^verbatim>\<open>AttributeError\<close> of
  \<^verbatim>\<open>getattr\<close> for such a name comes through.
\<close>

lemma as_dict_reads_live_values:
  assumes "class_constant_cache w c = Some S" and "enumeration it" and "finite S"
  shows "(S \<subseteq> dir w c \<longrightarrow>
            (\<exists>items. as_dict it w c = Inr items
               \<and> distinct (map fst items) \<and> fst ` set items = S
               \<and> (\<forall>n v. (n, v) \<in> set items \<longleftrightarrow> n \<in> S \<and> getattr w c n = Inr v)
               \<and> (\<forall>n\<in>S. \<forall>v'. \<exists>items'.
                     as_dict it (snd (cls_setattr U w c n v')) c = Inr items'
                     \<and> map fst items' = map fst items \<and> (n, v') \<in> set items'
                     \<and> (\<forall>m u. m \<noteq> n \<longrightarrow> ((m, u) \<in> set items' \<longleftrightarrow> (m, u) \<in> set items)))))
       \<and> (\<not> S \<subseteq> dir w c \<longrightarrow>
            (\<exists>n\<in>S. n \<notin> dir w c \<and> as_dict it w c = Inl (AttributeError n)))"
proof (intro conjI impI)
  from assms(2,3) have it: "set (it S) = S" "distinct (it S)"
    by (auto simp: enumeration_def)
  {
    assume "\<not> S \<subseteq> dir w c"
    with it(1) comprehension_fails [of "it S" w c] assms(1)
    show "\<exists>n\<in>S. n \<notin> dir w c \<and> as_dict it w c = Inl (AttributeError n)"
      by (auto simp: as_dict_def)
  }
  assume vis: "S \<subseteq> dir w c"
  from as_dict_total [OF assms vis] obtain items where
    items: "as_dict it w c = Inr items" "map fst items = it S"
      "\<And>n v. (n, v) \<in> set items \<longleftrightarrow> n \<in> S \<and> getattr w c n = Inr v"
    by blast
  have live: "\<exists>items'. as_dict it (snd (cls_setattr U w c n v')) c = Inr items'
       \<and> map fst items' = map fst items \<and> (n, v') \<in> set items'
       \<and> (\<forall>m u. m \<noteq> n \<longrightarrow> ((m, u) \<in> set items' \<longleftrightarrow> (m, u) \<in> set items))"
    if n: "n \<in> S" for n v'
  proof -
    let ?w' = "snd (cls_setattr U w c n v')"
    from n have ins: "insert n S = S" by auto
    have w': "?w' = (type_setattr w c n v')
        \<lparr>class_constant_cache := (class_constant_cache w)(c \<mapsto> S)\<rparr>"
      using cls_setattr_registered [OF assms(1), of U n v'] ins by simp
    have cache': "class_constant_cache ?w' c = Some S"
      unfolding w' by simp
    have vis': "S \<subseteq> dir ?w' c"
      unfolding w' using vis dir_type_setattr [of w c c n v'] by auto
    from as_dict_total [OF cache' assms(2,3) vis'] obtain items' where
      items': "as_dict it ?w' c = Inr items'" "map fst items' = it S"
        "\<And>m u. (m, u) \<in> set items' \<longleftrightarrow> m \<in> S \<and> getattr ?w' c m = Inr u"
      by blast
    have same: "getattr ?w' c n = Inr v'"
      unfolding w' by (simp add: getattr_type_setattr_same)
    have other: "getattr ?w' c m = getattr w c m" if "m \<noteq> n" for m
      unfolding w' using that by (simp add: getattr_type_setattr_other)
    from items'(3) [of n v'] same n have "(n, v') \<in> set items'" by simp
    moreover have "\<forall>m u. m \<noteq> n \<longrightarrow> ((m, u) \<in> set items' \<longleftrightarrow> (m, u) \<in> set items)"
      using items'(3) items(3) other by simp
    ultimately show ?thesis
      using items'(1,2) items(2) by auto
  qed
  have "distinct (map fst items)" using items(2) it(2) by simp
  moreover have "fst ` set items = S"
    using items(2) it(1) by (metis set_map)
  ultimately show "\<exists>items. as_dict it w c = Inr items
       \<and> distinct (map fst items) \<and> fst ` set items = S
       \<and> (\<forall>n v. (n, v) \<in> set items \<longleftrightarrow> n \<in> S \<and> getattr w c n = Inr v)
       \<and> (\<forall>n\<in>S. \<forall>v'. \<exists>items'.
             as_dict it (snd (cls_setattr U w c n v')) c = Inr items'
             \<and> map fst items' = map fst items \<and> (n, v') \<in> set items'
             \<and> (\<forall>m u. m \<noteq> n \<longrightarrow> ((m, u) \<in> set items' \<longleftrightarrow> (m, u) \<in> set items)))"
    using items(1,3) live by blast
qed

lemma as_dict_reads_live_values_example:
  "class_constant_cache world_A 0 = Some {ascii ''PI''}
   \<and> enumeration sorted_list_of_set \<and> finite {ascii ''PI''}
   \<and> {ascii ''PI''} \<subseteq> dir world_A 0
   \<and> as_dict sorted_list_of_set world_A 0 = Inr [(ascii ''PI'', 3.14159)]
   \<and> as_dict sorted_list_of_set (snd (cls_setattr ascii_only world_A 0 (ascii ''PI'') 3)) 0
       = Inr [(ascii ''PI'', 3)]"
proof -
  have h1: "class_constant_cache world_A 0 = Some {ascii ''PI''}"
    by (simp add: world_simps)
  have h3: "finite {ascii ''PI''}" by simp
  have vis: "{ascii ''PI''} \<subseteq> dir world_A 0" by (simp add: dir_world_A)
  note t = as_dict_reads_live_values [OF h1 enumeration_sorted h3, of ascii_only,
      THEN conjunct1, THEN mp, OF vis]
  from t obtain items where
    a: "as_dict sorted_list_of_set world_A 0 = Inr items"
    and d1: "distinct (map fst items)" and d2: "fst ` set items = {ascii ''PI''}"
    and v: "\<forall>n v. (n, v) \<in> set items \<longleftrightarrow> n \<in> {ascii ''PI''} \<and> getattr world_A 0 n = Inr v"
    and l: "\<forall>n\<in>{ascii ''PI''}. \<forall>v'. \<exists>items'.
        as_dict sorted_list_of_set (snd (cls_setattr ascii_only world_A 0 n v')) 0 = Inr items'
        \<and> map fst items' = map fst items \<and> (n, v') \<in> set items'
        \<and> (\<forall>m u. m \<noteq> n \<longrightarrow> ((m, u) \<in> set items' \<longleftrightarrow> (m, u) \<in> set items))"
    by (elim exE conjE) (rule that; assumption)
  from d1 d2 have k: "map fst items = [ascii ''PI'']"
    by (intro list_of_singleton) simp_all
  then obtain u where items: "items = [(ascii ''PI'', u)]"
    by (cases items) auto
  from v have "(ascii ''PI'', u) \<in> set items \<longleftrightarrow>
      ascii ''PI'' \<in> {ascii ''PI''} \<and> getattr world_A 0 (ascii ''PI'') = Inr u"
    by (elim allE)
  with items getattr_world_A have "u = 3.14159" by simp
  with items a have r1: "as_dict sorted_list_of_set world_A 0 = Inr [(ascii ''PI'', 3.14159)]"
    by simp
  from l have "\<exists>items'.
        as_dict sorted_list_of_set (snd (cls_setattr ascii_only world_A 0 (ascii ''PI'') 3)) 0
          = Inr items'
        \<and> map fst items' = map fst items \<and> (ascii ''PI'', 3) \<in> set items'
        \<and> (\<forall>m u. m \<noteq> ascii ''PI'' \<longrightarrow> ((m, u) \<in> set items' \<longleftrightarrow> (m, u) \<in> set items))"
    by simp
  then obtain items' where
    a': "as_dict sorted_list_of_set (snd (cls_setattr ascii_only world_A 0 (ascii ''PI'') 3)) 0
          = Inr items'"
    and k': "map fst items' = map fst items" and m: "(ascii ''PI'', 3) \<in> set items'"
    by (elim exE conjE) (rule that; assumption)
  from k k' obtain u' where "items' = [(ascii ''PI'', u')]"
    by (cases items') auto
  with m a' have r2:
    "as_dict sorted_list_of_set (snd (cls_setattr ascii_only world_A 0 (ascii ''PI'') 3)) 0
       = Inr [(ascii ''PI'', 3)]"
    by simp
  show ?thesis
    by (intro conjI h1 enumeration_sorted h3 vis r1 r2)
qed

text \<open>
  Claim C8: \<^verbatim>\<open>as_dict\<close> returns the dictionary from every registered name to its
  live value, computed anew at every call. The code evaluated where it departs from
  this. After \<^verbatim>\<open>del A.PI\<close> the cache entry of \<^verbatim>\<open>B(A)\<close> still holds
  \<^verbatim>\<open>PI\<close>, and \<^verbatim>\<open>B.as_dict()\<close> raises \<^verbatim>\<open>AttributeError\<close> instead of
  returning a dictionary.
\<close>

theorem as_dict_after_lost_inherited_name:
  "class_constant_cache world_stale 1 = Some {ascii ''PI''}
   \<and> as_dict sorted_list_of_set world_stale 1 = Inl (AttributeError (ascii ''PI''))"
  by (simp add: as_dict_def getattr_def mro_def world_simps)

section \<open>The cache holds constant names only\<close>

lemma only_constants_setattr:
  "only_constants U w c \<Longrightarrow> only_constants U (snd (cls_setattr U w k name v)) c"
  by (auto simp: only_constants_def cls_setattr_def type_setattr_def Let_def split: option.splits)

lemma only_constants_delattr:
  "only_constants U w c \<Longrightarrow> only_constants U (snd (cls_delattr w k name)) c"
  by (auto simp: only_constants_def cls_delattr_def type_delattr_def split: option.splits)

lemma only_constants_step: "only_constants U w c \<Longrightarrow> only_constants U (step U w op) c"
  by (cases op) (simp_all add: only_constants_setattr only_constants_delattr)

lemma only_constants_run: "only_constants U w c \<Longrightarrow> only_constants U (run U w ops) c"
  unfolding run_def by (induction ops arbitrary: w) (simp_all add: only_constants_step)

lemma only_constants_new: "only_constants U (cls_new U w c nm ancestors ns) c"
  by (simp add: only_constants_def cls_new_cache)

text \<open>
  Claim C9: after the creation of a class and any sequence of assignments and
  deletions of attributes, on this class or on others, whether they succeed or raise,
  the class has a cache entry and every name in it satisfies \<open>is_const\<close>.
\<close>

theorem cache_holds_only_constant_names:
  "\<exists>S. class_constant_cache (run U (cls_new U w c nm ancestors ns) ops) c = Some S
       \<and> (\<forall>n\<in>S. is_const U n)"
  using only_constants_run [OF only_constants_new] unfolding only_constants_def .

theorem cache_holds_only_constant_names_witness:
  "class_constant_cache
     (run ascii_only world_A
        [SetAttr 0 (ascii ''E'') 2.71828, SetAttr 0 (ascii ''helper'') 0, DelAttr 0 (ascii ''PI'')])
     0 = Some {ascii ''E''}
   \<and> is_const ascii_only (ascii ''E'')"
proof -
  let ?ops = "[SetAttr 0 (ascii ''E'') 2.71828, SetAttr 0 (ascii ''helper'') 0,
      DelAttr 0 (ascii ''PI'')] :: real attr_op list"
  have e: "class_constant_cache (run ascii_only world_A ?ops) 0 = Some {ascii ''E''}"
    using is_const_examples
    by (auto simp: run_def cls_setattr_def cls_delattr_def type_setattr_def type_delattr_def
        world_simps Let_def)
  from cache_holds_only_constant_names
    [of ascii_only "empty_world :: real world" 0 "ascii ''A''" "[]" "[ascii ''PI'' \<mapsto> 3.14159]" ?ops,
     folded world_A_def]
  obtain S where "class_constant_cache (run ascii_only world_A ?ops) 0 = Some S"
    and "\<forall>n\<in>S. is_const ascii_only n"
    by (elim exE conjE)
  with e have "is_const ascii_only (ascii ''E'')" by auto
  with e show ?thesis by (intro conjI)
qed

section \<open>A deletion that fails\<close>

text \<open>
  Claim C10: the deletion raises \<^verbatim>\<open>AttributeError\<close> exactly when the name is
  not in the dictionary of the class itself; it then leaves the world as it was; and
  after any deletion that raises, the cache is what it was before.
\<close>

theorem failed_delattr_keeps_cache:
  "(fst (cls_delattr w c name) = Inl (AttributeError name)
      \<longleftrightarrow> cls_dict (classes w c) name = None)
   \<and> (cls_dict (classes w c) name = None \<longrightarrow> snd (cls_delattr w c name) = w)
   \<and> (fst (cls_delattr w c name) \<noteq> Inr ()
        \<longrightarrow> class_constant_cache (snd (cls_delattr w c name)) = class_constant_cache w)"
  by (auto simp: cls_delattr_def type_delattr_def split: option.splits)

theorem failed_delattr_keeps_cache_witness:
  "cls_dict (classes world_AB 1) (ascii ''PI'') = None
   \<and> getattr world_AB 1 (ascii ''PI'') = Inr 3.14159
   \<and> cls_delattr world_AB 1 (ascii ''PI'') = (Inl (AttributeError (ascii ''PI'')), world_AB)
   \<and> class_constant_cache (snd (cls_delattr world_AB 1 (ascii ''PI''))) 1 = Some {ascii ''PI''}"
proof -
  have h: "cls_dict (classes world_AB 1) (ascii ''PI'') = None"
    by (simp add: world_simps)
  have g: "getattr world_AB 1 (ascii ''PI'') = Inr 3.14159"
    by (simp add: getattr_def mro_def world_simps)
  note t = failed_delattr_keeps_cache [of world_AB 1 "ascii ''PI''"]
  from t h have f: "fst (cls_delattr world_AB 1 (ascii ''PI'')) = Inl (AttributeError (ascii ''PI''))"
    by simp
  from t h have s: "snd (cls_delattr world_AB 1 (ascii ''PI'')) = world_AB"
    by simp
  from f s have r1: "cls_delattr world_AB 1 (ascii ''PI'')
      = (Inl (AttributeError (ascii ''PI'')), world_AB)"
    by (simp add: prod_eq_iff)
  from t f have "class_constant_cache (snd (cls_delattr world_AB 1 (ascii ''PI'')))
      = class_constant_cache world_AB"
    by simp
  then have r2: "class_constant_cache (snd (cls_delattr world_AB 1 (ascii ''PI''))) 1
      = Some {ascii ''PI''}"
    by (simp add: world_simps)
  show ?thesis by (intro conjI h g r1 r2)
qed

end
